theory Spec2Isabelle
  imports Main "HOL-Library.AList"
begin

section \<open>Outcomes of calls\<close>

text \<open>
  A JavaScript call either returns a value, throws, or never returns (the recursion of
  the type model has no base case for some pairs of variants, so the engine's stack is
  exhausted). The model makes all three explicit: every recursive operation takes the
  number of nested calls it may still make and answers \<open>None\<close> when that number is
  used up, \<open>Some (Inl e)\<close> when the code throws \<open>e\<close>, and \<open>Some (Inr v)\<close> when it
  returns \<open>v\<close>.
\<close>

datatype exn =
    TypeError        \<comment> \<open>a member of \<open>undefined\<close>/\<open>null\<close> is read, or a non-function is called\<close>
  | Die string       \<comment> \<open>\<open>Error('Die: Unknown type ...')\<close>, with the discriminator of the node\<close>

type_synonym 'a result = "(exn + 'a) option"

abbreviation returns :: "'a \<Rightarrow> 'a result" where
  "returns v \<equiv> Some (Inr v)"

abbreviation throws :: "exn \<Rightarrow> 'a result" where
  "throws e \<equiv> Some (Inl e)"

definition and_then :: "'a result \<Rightarrow> ('a \<Rightarrow> 'b result) \<Rightarrow> 'b result" where
  "and_then m f = (case m of None \<Rightarrow> None | Some (Inl e) \<Rightarrow> throws e | Some (Inr v) \<Rightarrow> f v)"

text \<open>
  The two shapes of loop the comparison methods use: \<open>for (x of xs) if (!f(x)) return
  false; return true\<close> and \<open>for (x of xs) if (f(x)) return true; return false\<close>. Both
  stop at the first call that decides, throws or does not return.
\<close>

fun for_every :: "('a \<Rightarrow> bool result) \<Rightarrow> 'a list \<Rightarrow> bool result" where
  "for_every f [] = returns True"
| "for_every f (x # xs) =
     (case f x of
        None \<Rightarrow> None
      | Some (Inl e) \<Rightarrow> throws e
      | Some (Inr b) \<Rightarrow> if \<not> b then returns False else for_every f xs)"

fun for_some :: "('a \<Rightarrow> bool result) \<Rightarrow> 'a list \<Rightarrow> bool result" where
  "for_some f [] = returns False"
| "for_some f (x # xs) =
     (case f x of
        None \<Rightarrow> None
      | Some (Inl e) \<Rightarrow> throws e
      | Some (Inr b) \<Rightarrow> if b then returns True else for_some f xs)"

text \<open>
  JavaScript's \<open>a || b\<close> and \<open>a && b\<close> on two calls: the right operand is evaluated
  only when the left one returned and did not decide.
\<close>

definition js_or :: "bool result \<Rightarrow> bool result \<Rightarrow> bool result" where
  "js_or a b = (case a of
      None \<Rightarrow> None
    | Some (Inl e) \<Rightarrow> throws e
    | Some (Inr x) \<Rightarrow> if x then returns True else b)"

definition js_and :: "bool result \<Rightarrow> bool result \<Rightarrow> bool result" where
  "js_and a b = (case a of
      None \<Rightarrow> None
    | Some (Inl e) \<Rightarrow> throws e
    | Some (Inr x) \<Rightarrow> if x then b else returns False)"

section \<open>Strings\<close>

text \<open>
  Names are strings of code units below 256. \<open>strip\<close> is \<open>string.replace(/\s/g, '')\<close>:
  it deletes every code unit of the class \<open>\s\<close>, which below 256 is tab, line feed,
  vertical tab, form feed, carriage return, space and no-break space.
\<close>

definition is_space :: "char \<Rightarrow> bool" where
  "is_space c = (of_char c \<in> {9, 10, 11, 12, 13, 32, 160 :: nat})"

definition strip :: "string \<Rightarrow> string" where
  "strip string = filter (\<lambda>c. \<not> is_space c) string"

text \<open>\<open>Array.prototype.join\<close> on an array of strings.\<close>

fun join :: "string \<Rightarrow> string list \<Rightarrow> string" where
  "join sep [] = []"
| "join sep [x] = x"
| "join sep (x # y # ys) = x @ sep @ join sep (y # ys)"

section \<open>Plain objects\<close>

text \<open>
  The code uses plain JavaScript objects (\<open>{}\<close>) as dictionaries in three places: the
  \<open>record\<close> of a record type, the \<open>parameterTypes\<close> of a function type and the
  registry \<open>typedefs\<close>. Every value the code stores in them is an instance of \<open>Type\<close>.
  A plain object is modelled by its own properties, in the order of their creation, and
  by its prototype: \<open>None\<close> for \<open>Object.prototype\<close>, which \<open>{}\<close> starts with, and
  \<open>Some t\<close> once \<open>obj['__proto__'] = t\<close> has run, because that assignment calls the
  setter inherited from \<open>Object.prototype\<close> and makes \<open>t\<close> the prototype instead of
  creating a property (unless the object already has an own property of that name,
  which no assignment creates).
\<close>

datatype 'a plain_object =
  PlainObject (own: "(string \<times> 'a) list") (proto: "'a option")

definition empty_object :: "'a plain_object" where
  "empty_object = PlainObject [] None"

text \<open>\<open>obj[name] = value\<close>. A name that is already an own property keeps its place.\<close>

definition assign :: "string \<Rightarrow> 'a \<Rightarrow> 'a plain_object \<Rightarrow> 'a plain_object" where
  "assign name v obj =
     (if name = ''__proto__'' \<and> ''__proto__'' \<notin> fst ` set (own obj)
      then PlainObject (own obj) (Some v)
      else PlainObject (AList.update name v (own obj)) (proto obj))"

text \<open>
  \<open>Object.keys(obj)\<close>: the own names that are array indices (\<open>0\<close>, or digits without
  a leading zero, with a value below \<open>2^32 - 1\<close>) in ascending numeric order, then the
  other own names in the order of their creation.
\<close>

definition is_digit :: "char \<Rightarrow> bool" where
  "is_digit c = (48 \<le> (of_char c :: nat) \<and> (of_char c :: nat) \<le> 57)"

fun all_digits :: "string \<Rightarrow> bool" where
  "all_digits [] = True"
| "all_digits (c # cs) = (is_digit c \<and> all_digits cs)"

definition numeric_value :: "string \<Rightarrow> nat" where
  "numeric_value s = foldl (\<lambda>n c. 10 * n + (of_char c - 48)) 0 s"

definition is_array_index :: "string \<Rightarrow> bool" where
  "is_array_index s =
     (s \<noteq> [] \<and> all_digits s \<and> (if hd s = CHR ''0'' then length s = 1 else True) \<and>
      numeric_value s < 2 ^ 32 - 1)"

definition Object_keys :: "'a plain_object \<Rightarrow> string list" where
  "Object_keys obj =
     sort_key numeric_value (filter is_array_index (map fst (own obj))) @
     filter (\<lambda>k. \<not> is_array_index k) (map fst (own obj))"

text \<open>
  The call \<open>obj.hasOwnProperty(name)\<close>. The method is looked up on the object like any
  other property: an own property of that name hides the inherited method, and since it
  holds a type, not a function, the call throws. No prototype the code can install
  defines the name, so otherwise the method of \<open>Object.prototype\<close> answers.
\<close>

definition hasOwnProperty :: "'a plain_object \<Rightarrow> string \<Rightarrow> exn + bool" where
  "hasOwnProperty obj name =
     (if ''hasOwnProperty'' \<in> fst ` set (own obj) then Inl TypeError
      else Inr (name \<in> fst ` set (own obj)))"

section \<open>The type algebra\<close>

text \<open>
  One constructor per class. \<open>BaseType\<close> is an instance of the base class \<open>Type\<close>
  itself (\<open>Type.invalid\<close> and the \<open>new Type()\<close> of the primitive translator; the code
  never compares them by identity). \<open>AnyType\<close> is not exported and is instantiated
  once, so the constructor \<open>AnyType\<close> is the object \<open>Type.any\<close> and
  \<open>otherType === Type.any\<close> is equality with it. \<open>PrimitiveType\<close> holds the field
  \<open>primitive\<close>, which the class constructor has already stripped.

  The field \<open>type\<close> of an alias holds whatever the registry lookup found: \<open>Some t\<close> when
  that is an instance of \<open>Type\<close>, and \<open>None\<close> when it is another truthy value (a function
  or an object that the registry inherits from its prototype).
\<close>

datatype ty =
    BaseType
  | AnyType
  | PrimitiveType string
  | AliasType string "ty option"
  | UnionType "ty list"
  | RecordType "ty plain_object"
  | FunctionType ty "ty list" "ty plain_object"

definition new_PrimitiveType :: "string \<Rightarrow> ty" where
  "new_PrimitiveType primitive = PrimitiveType (strip primitive)"

definition Type_any :: ty where "Type_any = AnyType"
definition Type_undefined :: ty where "Type_undefined = new_PrimitiveType ''undefined''"
definition Type_invalid :: ty where "Type_invalid = BaseType"
definition Type_string :: ty where "Type_string = new_PrimitiveType ''string''"
definition Type_number :: ty where "Type_number = new_PrimitiveType ''number''"
definition Type_boolean :: ty where "Type_boolean = new_PrimitiveType ''boolean''"
definition Type_object :: ty where "Type_object = RecordType empty_object"
definition Type_null :: ty where "Type_null = new_PrimitiveType ''null''"
definition Type_RegExp :: ty where "Type_RegExp = new_PrimitiveType ''RegExp''"

subsection \<open>Reading a property of a plain object\<close>

text \<open>
  \<open>obj[name]\<close>, as far as the code looks at it: the code either tests the value for
  truthiness (\<open>if (typedef)\<close>, \<open>... || Type.any\<close>) or has checked that the property is
  its own. The result is \<open>None\<close> when the value is falsy (\<open>undefined\<close> or the empty
  string) and \<open>Some v\<close> when it is truthy, where \<open>v\<close> is \<open>Some t\<close> for an instance \<open>t\<close>
  of \<open>Type\<close> and \<open>None\<close> for any other value.

  An own property wins. Otherwise the prototype chain is searched. When the prototype is
  a type \<open>t\<close>, the fields of \<open>t\<close> come first (\<open>instance_field\<close>), then the methods of
  its class and of \<open>Type\<close>, which are functions; every class defines a subset of the
  method names of \<open>Type\<close>. The chain ends in \<open>Object.prototype\<close>, whose members are
  functions, except that \<open>__proto__\<close> reads the prototype of the object itself.
\<close>

definition Type_prototype_names :: "string list" where
  "Type_prototype_names =
     [''constructor'', ''isOfType'', ''isSupertypeOf'', ''getPropertyNames'',
      ''getProperty'', ''getReturn'', ''getArgumentCount'', ''getArgument'',
      ''getParameter'', ''hasParameter'', ''toString'', ''instanceOf'', ''getPrimitive'']"

definition Object_prototype_names :: "string list" where
  "Object_prototype_names =
     [''constructor'', ''__defineGetter__'', ''__defineSetter__'', ''hasOwnProperty'',
      ''__lookupGetter__'', ''__lookupSetter__'', ''isPrototypeOf'',
      ''propertyIsEnumerable'', ''toString'', ''valueOf'', ''toLocaleString'']"

text \<open>
  The own properties of an instance are the fields its constructor assigns. The outer
  \<open>None\<close> says that the instance has no field of that name.
\<close>

fun instance_field :: "ty \<Rightarrow> string \<Rightarrow> ty option option option" where
  "instance_field (PrimitiveType primitive) name =
     (if name = ''primitive'' then Some (if primitive = [] then None else Some None)
      else None)"
| "instance_field (AliasType alias target) name =
     (if name = ''name'' then Some (if alias = [] then None else Some None)
      else if name = ''type'' then Some (Some target)
      else None)"
| "instance_field (UnionType members) name =
     (if name = ''union'' then Some (Some None) else None)"
| "instance_field (RecordType record) name =
     (if name = ''record'' then Some (Some None) else None)"
| "instance_field (FunctionType returnType argumentTypes parameterTypes) name =
     (if name = ''returnType'' then Some (Some (Some returnType))
      else if name = ''argumentTypes'' \<or> name = ''parameterTypes'' then Some (Some None)
      else None)"
| "instance_field t name = None"

definition inherited :: "ty option \<Rightarrow> string \<Rightarrow> ty option option" where
  "inherited prototype name =
     (case prototype of
        None \<Rightarrow>
          if name = ''__proto__'' \<or> name \<in> set Object_prototype_names then Some None
          else None
      | Some t \<Rightarrow>
          (case instance_field t name of
             Some v \<Rightarrow> v
           | None \<Rightarrow>
               if name \<in> set Type_prototype_names then Some None
               else if name = ''__proto__'' then Some (Some t)
               else if name \<in> set Object_prototype_names then Some None
               else None))"

definition read :: "ty plain_object \<Rightarrow> string \<Rightarrow> ty option option" where
  "read obj name =
     (case map_of (own obj) name of
        Some t \<Rightarrow> Some (Some t)
      | None \<Rightarrow> inherited (proto obj) name)"

subsection \<open>Class tests\<close>

datatype kind = KType | KAnyType | KPrimitiveType | KAliasType | KUnionType
  | KRecordType | KFunctionType

fun class_of :: "ty \<Rightarrow> kind" where
  "class_of BaseType = KType"
| "class_of AnyType = KAnyType"
| "class_of (PrimitiveType p) = KPrimitiveType"
| "class_of (AliasType n t) = KAliasType"
| "class_of (UnionType u) = KUnionType"
| "class_of (RecordType r) = KRecordType"
| "class_of (FunctionType r a p) = KFunctionType"

text \<open>The operator \<open>instanceof\<close>: every class extends \<open>Type\<close> directly.\<close>

definition instanceof :: "ty \<Rightarrow> kind \<Rightarrow> bool" where
  "instanceof t k = (k = KType \<or> class_of t = k)"

text \<open>
  The method \<open>instanceOf\<close>. An alias answers for its target with the operator, not
  with the target's method, so it looks through one alias only; the operator is
  \<open>false\<close> on a value that is no instance of \<open>Type\<close>.
\<close>

fun instanceOf :: "ty \<Rightarrow> kind \<Rightarrow> bool" where
  "instanceOf (AliasType n (Some t)) k = instanceof t k"
| "instanceOf (AliasType n None) k = False"
| "instanceOf t k = instanceof t k"

subsection \<open>Accessors\<close>

text \<open>
  The accessors are total in the model and answer \<open>Inl e\<close> where the code throws
  \<open>e\<close>: an alias forwards each of them to its target, and calling a method of \<open>Type\<close>
  on a target that is no instance of \<open>Type\<close> throws a \<open>TypeError\<close>; a record and a
  function call \<open>hasOwnProperty\<close> on their plain object.

  In \<open>getPrimitive\<close>, \<open>None\<close> is \<open>undefined\<close>; \<open>AliasType\<close> does not override it.
\<close>

fun getPrimitive :: "ty \<Rightarrow> string option" where
  "getPrimitive (PrimitiveType primitive) = Some primitive"
| "getPrimitive t = None"

fun getPropertyNames :: "ty \<Rightarrow> exn + string list" where
  "getPropertyNames (AliasType n (Some t)) = getPropertyNames t"
| "getPropertyNames (AliasType n None) = Inl TypeError"
| "getPropertyNames (RecordType record) = Inr (Object_keys record)"
| "getPropertyNames t = Inr []"

text \<open>
  For a record: \<open>if (this.record.hasOwnProperty(name)) return this.record[name]; else
  return Type.any\<close>. When the test is true the read finds the own property.
\<close>

fun getProperty :: "ty \<Rightarrow> string \<Rightarrow> exn + ty" where
  "getProperty AnyType name = Inr Type_any"
| "getProperty (AliasType n (Some t)) name = getProperty t name"
| "getProperty (AliasType n None) name = Inl TypeError"
| "getProperty (RecordType record) name =
     (case hasOwnProperty record name of
        Inl e \<Rightarrow> Inl e
      | Inr b \<Rightarrow>
          if b then (case map_of (own record) name of Some t \<Rightarrow> Inr t | None \<Rightarrow> Inr Type_any)
          else Inr Type_any)"
| "getProperty t name = Inr Type_invalid"

fun getReturn :: "ty \<Rightarrow> exn + ty" where
  "getReturn AnyType = Inr Type_any"
| "getReturn (AliasType n (Some t)) = getReturn t"
| "getReturn (AliasType n None) = Inl TypeError"
| "getReturn (FunctionType returnType argumentTypes parameterTypes) = Inr returnType"
| "getReturn t = Inr Type_invalid"

fun getArgumentCount :: "ty \<Rightarrow> exn + nat option" where
  "getArgumentCount (AliasType n (Some t)) = getArgumentCount t"
| "getArgumentCount (AliasType n None) = Inl TypeError"
| "getArgumentCount (FunctionType returnType argumentTypes parameterTypes) =
     Inr (Some (length argumentTypes))"
| "getArgumentCount t = Inr None"

text \<open>
  \<open>this.argumentTypes[index] || Type.invalid\<close> for an integer \<open>index\<close>: an index
  outside the array reads \<open>undefined\<close>, which is falsy; every element of the array is
  an object, which is truthy.
\<close>

fun getArgument :: "ty \<Rightarrow> int \<Rightarrow> exn + ty" where
  "getArgument AnyType index = Inr Type_any"
| "getArgument (AliasType n (Some t)) index = getArgument t index"
| "getArgument (AliasType n None) index = Inl TypeError"
| "getArgument (FunctionType returnType argumentTypes parameterTypes) index =
     (if 0 \<le> index \<and> index < int (length argumentTypes)
      then Inr (argumentTypes ! nat index) else Inr Type_invalid)"
| "getArgument t index = Inr Type_invalid"

text \<open>
  \<open>this.parameterTypes[name] || Type.any\<close> returns whatever truthy value the read
  finds, own or inherited: \<open>Some t\<close> is the type \<open>t\<close>, \<open>None\<close> a value that is no type.
\<close>

fun getParameter :: "ty \<Rightarrow> string \<Rightarrow> exn + ty option" where
  "getParameter (AliasType n (Some t)) name = getParameter t name"
| "getParameter (AliasType n None) name = Inl TypeError"
| "getParameter (FunctionType returnType argumentTypes parameterTypes) name =
     (case read parameterTypes name of Some v \<Rightarrow> Inr v | None \<Rightarrow> Inr (Some Type_any))"
| "getParameter t name = Inr (Some Type_invalid)"

fun hasParameter :: "ty \<Rightarrow> string \<Rightarrow> exn + bool" where
  "hasParameter (AliasType n (Some t)) name = hasParameter t name"
| "hasParameter (AliasType n None) name = Inl TypeError"
| "hasParameter (FunctionType returnType argumentTypes parameterTypes) name =
     hasOwnProperty parameterTypes name"
| "hasParameter t name = Inr False"

text \<open>
  \<open>toString\<close>. \<open>all_values\<close> is the effect of mapping over an array a function that
  may throw: the first throw, in the order of the array, ends the whole. A record
  renders each of its names with \<open>getProperty\<close>, as the template string of the source
  does; an alias renders its name and does not touch its target.
\<close>

fun all_values :: "(exn + 'a) list \<Rightarrow> exn + 'a list" where
  "all_values [] = Inr []"
| "all_values (x # xs) =
     (case x of
        Inl e \<Rightarrow> Inl e
      | Inr v \<Rightarrow> (case all_values xs of Inl e \<Rightarrow> Inl e | Inr vs \<Rightarrow> Inr (v # vs)))"

function toString :: "ty \<Rightarrow> exn + string" where
  "toString BaseType = Inr ''<invalid>''"
| "toString AnyType = Inr ''*''"
| "toString (PrimitiveType primitive) = Inr primitive"
| "toString (AliasType name t) = Inr name"
| "toString (UnionType members) =
     (case all_values (map toString members) of
        Inl e \<Rightarrow> Inl e
      | Inr strings \<Rightarrow> Inr (join ''|'' strings))"
| "toString (RecordType record) =
     (case all_values
        (map (\<lambda>name.
            case getProperty (RecordType record) name of
              Inl e \<Rightarrow> Inl e
            | Inr t \<Rightarrow> (case toString t of Inl e \<Rightarrow> Inl e | Inr s \<Rightarrow> Inr (name @ '':'' @ s)))
          (Object_keys record)) of
        Inl e \<Rightarrow> Inl e
      | Inr strings \<Rightarrow> Inr (''{'' @ join '', '' strings @ ''}''))"
| "toString (FunctionType returnType argumentTypes parameterTypes) =
     (case all_values (map toString argumentTypes) of
        Inl e \<Rightarrow> Inl e
      | Inr strings \<Rightarrow>
          (case toString returnType of
             Inl e \<Rightarrow> Inl e
           | Inr s \<Rightarrow> Inr (''function('' @ join '','' strings @ ''):'' @ s)))"
  by pat_completeness auto
termination
proof -
  have elem: "size x < Suc (size_list size xs + k)" if "x \<in> set xs" for x :: ty and xs k
    using that by (induction xs) auto
  have pair: "size v \<le> size_list (size_prod (\<lambda>x. 0) size) ps"
    if "(k, v) \<in> set ps" for k :: string and v :: ty and ps
    using that by (induction ps) auto
  have own_value: "size t < Suc (size_plain_object size obj)"
    if "map_of (own obj) k = Some t" for obj :: "ty plain_object" and k t
    using pair [OF map_of_SomeD [OF that]] by (cases obj) simp
  have property: "size t < Suc (size_plain_object size obj)"
    if "getProperty (RecordType obj) k = Inr t" for obj k t
    using that own_value [of obj k t]
    by (auto simp: Type_any_def split: sum.splits if_splits option.splits)
  show ?thesis
  proof (relation "measure size")
    show "wf (measure size)" by simp
  next
    fix members :: "ty list" and x
    assume "x \<in> set members"
    then show "(x, UnionType members) \<in> measure size"
      using elem [of x members 0] by simp
  next
    fix obj :: "ty plain_object" and x t
    assume "getProperty (RecordType obj) x = Inr t"
    then show "(t, RecordType obj) \<in> measure size"
      using property [of obj x t] by simp
  next
    fix returnType :: ty and argumentTypes :: "ty list"
      and parameterTypes :: "ty plain_object" and x
    assume "x \<in> set argumentTypes"
    then show "(x, FunctionType returnType argumentTypes parameterTypes) \<in> measure size"
      using elem [of x argumentTypes "size_plain_object size parameterTypes + size returnType"]
      by (simp add: add.assoc)
  next
    fix returnType :: ty and argumentTypes :: "ty list"
      and parameterTypes :: "ty plain_object"
    show "(returnType, FunctionType returnType argumentTypes parameterTypes) \<in> measure size"
      by simp
  qed
qed

text \<open>
  A type answers \<open>isOfType\<close> through its aliases and union members. The predicate
  says that every alias met on the way wraps a type and not some other value.
\<close>

fun forwards_to_types :: "ty \<Rightarrow> bool" where
  "forwards_to_types (AliasType n None) = False"
| "forwards_to_types (AliasType n (Some t)) = forwards_to_types t"
| "forwards_to_types (UnionType members) = list_all forwards_to_types members"
| "forwards_to_types t = True"

subsection \<open>The two comparison methods\<close>

text \<open>
  The first argument bounds the depth of nested method calls; each call of
  \<open>isOfType\<close> or \<open>isSupertypeOf\<close> uses one. An accessor that throws inside a
  comparison ends it (\<open>Some\<close> turns the accessor's answer into an outcome).

  \<open>FunctionType.isSupertypeOf\<close> begins by calling \<open>this.getReturnType()\<close>. No class
  defines \<open>getReturnType\<close> (the accessor is \<open>getReturn\<close>), so the call throws a
  \<open>TypeError\<close> before anything else of the body runs.
\<close>

fun isOfType :: "nat \<Rightarrow> ty \<Rightarrow> ty \<Rightarrow> bool result"
  and isSupertypeOf :: "nat \<Rightarrow> ty \<Rightarrow> ty \<Rightarrow> bool result" where
  "isOfType 0 this otherType = None"
| "isOfType (Suc n) BaseType otherType = isSupertypeOf n otherType BaseType"
| "isOfType (Suc n) AnyType otherType = returns (otherType = Type_any)"
| "isOfType (Suc n) (PrimitiveType primitive) otherType =
     (if instanceOf otherType KPrimitiveType
      then returns (Some primitive = getPrimitive otherType)
      else isSupertypeOf n otherType (PrimitiveType primitive))"
| "isOfType (Suc n) (AliasType name (Some t)) otherType = isOfType n t otherType"
| "isOfType (Suc n) (AliasType name None) otherType = throws TypeError"
| "isOfType (Suc n) (UnionType members) otherType =
     for_every (\<lambda>t. isOfType n t otherType) members"
| "isOfType (Suc n) (RecordType record) otherType =
     (if instanceOf otherType KPrimitiveType then returns False
      else if \<not> instanceOf otherType KRecordType
      then isSupertypeOf n otherType (RecordType record)
      else and_then (Some (getPropertyNames otherType))
        (for_every
          (\<lambda>name.
             and_then (Some (getProperty (RecordType record) name))
               (\<lambda>mine. and_then (Some (getProperty otherType name))
                  (\<lambda>theirs. isOfType n mine theirs)))))"
| "isOfType (Suc n) (FunctionType returnType argumentTypes parameterTypes) otherType =
     isSupertypeOf n otherType (FunctionType returnType argumentTypes parameterTypes)"
| "isSupertypeOf 0 this otherType = None"
| "isSupertypeOf (Suc n) BaseType otherType = returns False"
| "isSupertypeOf (Suc n) AnyType otherType = returns True"
| "isSupertypeOf (Suc n) (PrimitiveType primitive) otherType =
     (if instanceOf otherType KPrimitiveType
      then returns (Some primitive = getPrimitive otherType)
      else isOfType n otherType (PrimitiveType primitive))"
| "isSupertypeOf (Suc n) (AliasType name (Some t)) otherType = isSupertypeOf n t otherType"
| "isSupertypeOf (Suc n) (AliasType name None) otherType = throws TypeError"
| "isSupertypeOf (Suc n) (UnionType members) otherType =
     for_some (\<lambda>t. isSupertypeOf n t otherType) members"
| "isSupertypeOf (Suc n) (RecordType record) otherType =
     (if instanceOf otherType KPrimitiveType then returns False
      else if \<not> instanceOf otherType KRecordType
      then isOfType n otherType (RecordType record)
      else and_then (Some (getPropertyNames (RecordType record)))
        (for_every
          (\<lambda>name.
             and_then (Some (getProperty (RecordType record) name))
               (\<lambda>mine. and_then (Some (getProperty otherType name))
                  (\<lambda>theirs. isSupertypeOf n mine theirs)))))"
| "isSupertypeOf (Suc n) (FunctionType returnType argumentTypes parameterTypes) otherType =
     throws TypeError"

section \<open>The annotation translator\<close>

text \<open>
  A node of the parsed type expression: the discriminator \<open>type\<close> and the members the
  translator reads (\<open>name\<close> of a name expression, \<open>elements\<close> of a union, \<open>params\<close>
  and \<open>result\<close> of a function; \<open>result\<close> is \<open>None\<close> when the node has none). A tag
  has a title, a name and a type expression, which is \<open>None\<close> when the tag carries none.
  The annotation record \<open>rec\<close> is its member \<open>tags\<close>, \<open>None\<close> for the empty object
  \<open>{}\<close> that the union translator and \<open>Type.fromString\<close> pass. The registry
  \<open>typedefs\<close> is a plain object that holds types.
\<close>

datatype dnode =
  Node (type: string) (name: string) (elements: "dnode list") (params: "dnode list")
    (result: "dnode option")

abbreviation NameExpression :: "string \<Rightarrow> dnode" where
  "NameExpression n \<equiv> Node ''NameExpression'' n [] [] None"

abbreviation UndefinedLiteral :: dnode where
  "UndefinedLiteral \<equiv> Node ''UndefinedLiteral'' [] [] [] None"

datatype tag = Tag (title: string) (tag_name: string) (tag_type: "dnode option")

type_synonym rec = "tag list option"

type_synonym typedefs = "ty plain_object"

text \<open>The loops \<open>for (...) state = f(state, x)\<close> and \<open>xs.map(f)\<close>, stopped by a throw.\<close>

fun for_each :: "('s \<Rightarrow> 'a \<Rightarrow> 's result) \<Rightarrow> 's \<Rightarrow> 'a list \<Rightarrow> 's result" where
  "for_each f s [] = returns s"
| "for_each f s (x # xs) = and_then (f s x) (\<lambda>s'. for_each f s' xs)"

fun map_result :: "('a \<Rightarrow> 'b result) \<Rightarrow> 'a list \<Rightarrow> 'b list result" where
  "map_result f [] = returns []"
| "map_result f (x # xs) =
     and_then (f x) (\<lambda>y. and_then (map_result f xs) (\<lambda>ys. returns (y # ys)))"

text \<open>
  \<open>PrimitiveType.fromDoctrineType\<close>: \<open>typedefs[type.name]\<close> is read and tested for
  truthiness, so a name that the registry inherits counts as registered, and the alias
  then wraps the inherited value.
\<close>

definition PrimitiveType_fromDoctrineType :: "dnode \<Rightarrow> rec \<Rightarrow> typedefs \<Rightarrow> ty" where
  "PrimitiveType_fromDoctrineType t rec typedefs =
     (if type t = ''NameExpression'' then
        (case read typedefs (name t) of
           Some typedef \<Rightarrow> AliasType (name t) typedef
         | None \<Rightarrow> new_PrimitiveType (name t))
      else if type t = ''UndefinedLiteral'' then Type_undefined
      else BaseType)"

text \<open>
  The four translators call each other, and every cycle of calls passes through the
  dispatcher \<open>Type.fromDoctrineType\<close>. The record, union and function translators are
  therefore written over the dispatcher they call (their first argument), and the
  dispatcher is defined by recursion on the depth of nested dispatcher calls it may
  still make.

  \<open>Type.fromDoctrineType\<close> and \<open>RecordType.fromDoctrineType\<close> receive \<open>tag.type\<close>,
  which may be missing: reading its discriminator then throws. The record translator
  scans \<open>rec.tags\<close> and translates each \<open>property\<close> tag with the same \<open>rec\<close>,
  assigning the result to \<open>record[tag.name]\<close>.
\<close>

type_synonym translator = "dnode option \<Rightarrow> rec \<Rightarrow> typedefs \<Rightarrow> ty result"

definition RecordType_fromDoctrineType_over ::
  "translator \<Rightarrow> dnode option \<Rightarrow> rec \<Rightarrow> typedefs \<Rightarrow> ty result" where
  "RecordType_fromDoctrineType_over fromDoctrineType t rec typedefs =
     (case t of
        None \<Rightarrow> throws TypeError
      | Some t \<Rightarrow>
          if type t = ''NameExpression'' \<and> name t = ''object'' then
            (case rec of
               None \<Rightarrow> throws TypeError
             | Some tags \<Rightarrow>
                 and_then
                   (for_each
                     (\<lambda>record tag.
                        if title tag = ''property''
                        then and_then (fromDoctrineType (tag_type tag) rec typedefs)
                          (\<lambda>v. returns (assign (tag_name tag) v record))
                        else returns record)
                     empty_object tags)
                   (\<lambda>record. returns (RecordType record)))
          else returns Type_invalid)"

definition UnionType_fromDoctrineType_over ::
  "translator \<Rightarrow> dnode \<Rightarrow> rec \<Rightarrow> typedefs \<Rightarrow> ty result" where
  "UnionType_fromDoctrineType_over fromDoctrineType t rec typedefs =
     and_then
       (map_result (\<lambda>element. fromDoctrineType (Some element) None typedefs) (elements t))
       (\<lambda>members. returns (UnionType members))"

definition FunctionType_fromDoctrineType_over ::
  "translator \<Rightarrow> dnode \<Rightarrow> rec \<Rightarrow> typedefs \<Rightarrow> ty result" where
  "FunctionType_fromDoctrineType_over fromDoctrineType t rec typedefs =
     and_then
       (case result t of
          Some r \<Rightarrow> fromDoctrineType (Some r) rec typedefs
        | None \<Rightarrow> returns Type_any)
       (\<lambda>returnType.
          and_then
            (map_result (\<lambda>param. fromDoctrineType (Some param) rec typedefs) (params t))
            (\<lambda>paramTypes. returns (FunctionType returnType paramTypes empty_object)))"

primrec Type_fromDoctrineType :: "nat \<Rightarrow> translator" where
  "Type_fromDoctrineType 0 = (\<lambda>t rec typedefs. None)"
| "Type_fromDoctrineType (Suc n) = (\<lambda>t rec typedefs.
     case t of
       None \<Rightarrow> throws TypeError
     | Some t \<Rightarrow>
         if type t = ''FunctionType''
         then FunctionType_fromDoctrineType_over (Type_fromDoctrineType n) t rec typedefs
         else if type t = ''RecordType''
         then RecordType_fromDoctrineType_over (Type_fromDoctrineType n) (Some t) rec typedefs
         else if type t = ''UnionType''
         then UnionType_fromDoctrineType_over (Type_fromDoctrineType n) t rec typedefs
         else if type t = ''NameExpression'' then
           (if name t = ''object''
            then RecordType_fromDoctrineType_over (Type_fromDoctrineType n) (Some t) rec typedefs
            else returns (PrimitiveType_fromDoctrineType t rec typedefs))
         else if type t = ''UndefinedLiteral''
         then returns (PrimitiveType_fromDoctrineType t rec typedefs)
         else throws (Die (type t)))"

definition RecordType_fromDoctrineType :: "nat \<Rightarrow> translator" where
  "RecordType_fromDoctrineType n = RecordType_fromDoctrineType_over (Type_fromDoctrineType n)"

definition UnionType_fromDoctrineType ::
  "nat \<Rightarrow> dnode \<Rightarrow> rec \<Rightarrow> typedefs \<Rightarrow> ty result" where
  "UnionType_fromDoctrineType n = UnionType_fromDoctrineType_over (Type_fromDoctrineType n)"

definition FunctionType_fromDoctrineType ::
  "nat \<Rightarrow> dnode \<Rightarrow> rec \<Rightarrow> typedefs \<Rightarrow> ty result" where
  "FunctionType_fromDoctrineType n =
     FunctionType_fromDoctrineType_over (Type_fromDoctrineType n)"

text \<open>
  \<open>FunctionType.fromDoctrine\<close>: one pass over the tags, collecting the return type, the
  argument types in order and the parameter types by name.
\<close>

definition FunctionType_fromDoctrine :: "nat \<Rightarrow> rec \<Rightarrow> typedefs \<Rightarrow> ty result" where
  "FunctionType_fromDoctrine n rec typedefs =
     (case rec of
        None \<Rightarrow> throws TypeError
      | Some tags \<Rightarrow>
          and_then
            (for_each
              (\<lambda>(returnType, argumentTypes, parameterTypes) tag.
                 if title tag = ''return'' \<or> title tag = ''returns''
                 then and_then (Type_fromDoctrineType n (tag_type tag) rec typedefs)
                   (\<lambda>t. returns (t, argumentTypes, parameterTypes))
                 else if title tag = ''param''
                 then and_then (Type_fromDoctrineType n (tag_type tag) rec typedefs)
                   (\<lambda>argumentType. returns (returnType, argumentTypes @ [argumentType],
                      assign (tag_name tag) argumentType parameterTypes))
                 else returns (returnType, argumentTypes, parameterTypes))
              (Type_any, [], empty_object) tags)
            (\<lambda>(returnType, argumentTypes, parameterTypes).
               returns (FunctionType returnType argumentTypes parameterTypes)))"

text \<open>
  \<open>Type.fromDoctrine\<close>: the first tag whose title is \<open>typedef\<close>, \<open>type\<close>,
  \<open>return\<close>, \<open>returns\<close> or \<open>param\<close> decides. The registry is mutated in the
  \<open>typedef\<close> case only, after the record translator has returned, so the result is
  the type together with the registry as the call leaves it; a call that throws leaves
  the registry as it was.
\<close>

fun Type_fromDoctrine_tags ::
  "nat \<Rightarrow> rec \<Rightarrow> typedefs \<Rightarrow> tag list \<Rightarrow> (ty \<times> typedefs) result" where
  "Type_fromDoctrine_tags n rec typedefs [] = returns (Type_any, typedefs)"
| "Type_fromDoctrine_tags n rec typedefs (tag # tags) =
     (if title tag = ''typedef'' then
        and_then (RecordType_fromDoctrineType n (tag_type tag) rec typedefs)
          (\<lambda>t. returns (Type_any, assign (tag_name tag) t typedefs))
      else if title tag = ''type'' then
        and_then (Type_fromDoctrineType n (tag_type tag) rec typedefs)
          (\<lambda>t. returns (t, typedefs))
      else if title tag = ''return'' \<or> title tag = ''returns'' \<or> title tag = ''param'' then
        and_then (FunctionType_fromDoctrine n rec typedefs) (\<lambda>t. returns (t, typedefs))
      else Type_fromDoctrine_tags n rec typedefs tags)"

definition Type_fromDoctrine :: "nat \<Rightarrow> rec \<Rightarrow> typedefs \<Rightarrow> (ty \<times> typedefs) result" where
  "Type_fromDoctrine n rec typedefs =
     (case rec of
        None \<Rightarrow> throws TypeError
      | Some tags \<Rightarrow> Type_fromDoctrine_tags n rec typedefs tags)"

text \<open>
  The typedef declaration that the specification gives as its example: a typedef
  \<open>Pair\<close> of type \<open>object\<close> with one property \<open>a\<close> of type \<open>number\<close>.
\<close>

definition Pair_tags :: "tag list" where
  "Pair_tags =
     [Tag ''typedef'' ''Pair'' (Some (NameExpression ''object'')),
      Tag ''property'' ''a'' (Some (NameExpression ''number''))]"

section \<open>Properties of the type algebra\<close>

subsection \<open>Auxiliary facts\<close>

text \<open>
  \<open>Object.keys\<close> lists exactly the own names, array indices first.
\<close>

lemma Object_keys_order_example:
  "Object_keys (PlainObject [(''b'', x), (''10'', x), (''2'', x), (''01'', x)] None)
   = [''2'', ''10'', ''b'', ''01'']"
  by (simp add: Object_keys_def is_array_index_def is_digit_def numeric_value_def sort_key_def)

lemma set_Object_keys: "set (Object_keys obj) = fst ` set (own obj)"
  by (auto simp: Object_keys_def)

lemma Object_keys_empty_object: "Object_keys empty_object = []"
  by (simp add: Object_keys_def empty_object_def)

lemma for_every_all_True:
  "(\<And>x. x \<in> set xs \<Longrightarrow> f x = returns True) \<Longrightarrow> for_every f xs = returns True"
  by (induction xs) auto

lemma for_every_True_or_throws:
  "(\<And>x. x \<in> set xs \<Longrightarrow> f x = (if P x then returns True else throws e)) \<Longrightarrow>
   for_every f xs = (if list_all P xs then returns True else throws e)"
  by (induction xs) auto

lemma depth_one: "Suc k < n \<Longrightarrow> \<exists>m. n = Suc m"
  by (cases n) auto

lemma depth_two: "Suc k < n \<Longrightarrow> \<exists>m. n = Suc (Suc m)"
  using less_imp_Suc_add [of "Suc k" n] by auto

lemma instanceOf_RecordType_not_PrimitiveType:
  "instanceOf t KRecordType \<Longrightarrow> \<not> instanceOf t KPrimitiveType"
proof (cases t)
  case (AliasType nm target)
  assume "instanceOf t KRecordType"
  with AliasType show ?thesis by (cases target) (auto simp: instanceof_def)
qed (auto simp: instanceof_def)

text \<open>
  Every type answers \<open>isOfType(Type.any)\<close> by handing the question to
  \<open>Type.any.isSupertypeOf\<close>, which is \<open>true\<close>, or by asking its parts: an alias its
  target, a union its members. The answer is \<open>true\<close> unless an alias met on the way
  wraps a value that is no type, on which the forwarded call throws. The depth needed is
  bounded by the size of the receiver.
\<close>

lemma isOfType_any:
  "Suc (size t) < n \<Longrightarrow>
   isOfType n t Type_any = (if forwards_to_types t then returns True else throws TypeError)"
proof (induction t arbitrary: n)
  case BaseType
  then obtain m where "n = Suc (Suc m)" using depth_two by blast
  then show ?case by (simp add: Type_any_def)
next
  case AnyType
  then obtain m where "n = Suc m" using depth_one by blast
  then show ?case by (simp add: Type_any_def)
next
  case (PrimitiveType p)
  then obtain m where "n = Suc (Suc m)" using depth_two by blast
  then show ?case by (simp add: Type_any_def instanceof_def)
next
  case (AliasType a target)
  then obtain m where n: "n = Suc m" using depth_one by blast
  show ?case
  proof (cases target)
    case None
    with n show ?thesis by simp
  next
    case (Some t)
    with AliasType.prems n have "Suc (size t) < m" by simp
    then show ?thesis using AliasType.IH [of t m] Some n by simp
  qed
next
  case (UnionType ts)
  then obtain m where n: "n = Suc m" using depth_one by blast
  have "isOfType m t Type_any = (if forwards_to_types t then returns True else throws TypeError)"
    if "t \<in> set ts" for t
  proof -
    have "size t \<le> size_list size ts" using that by (simp add: size_list_estimation')
    with UnionType.prems n have "Suc (size t) < m" by simp
    then show ?thesis using UnionType.IH that by blast
  qed
  then show ?case
    using n for_every_True_or_throws
      [of ts "\<lambda>t. isOfType m t Type_any" forwards_to_types TypeError]
    by simp
next
  case (RecordType r)
  then obtain m where "n = Suc (Suc m)" using depth_two by blast
  then show ?case by (simp add: Type_any_def instanceof_def)
next
  case (FunctionType r a p)
  then obtain m where "n = Suc (Suc m)" using depth_two by blast
  then show ?case by (simp add: Type_any_def)
qed

text \<open>
  \<open>FunctionType\<close> inherits \<open>Type.isOfType\<close>, which asks the argument's
  \<open>isSupertypeOf\<close>; a primitive that is asked about a non-primitive asks that one's
  \<open>isOfType\<close> in turn. The two calls alternate for ever: no depth is enough.
\<close>

lemma FunctionType_isOfType_PrimitiveType_never_returns:
  "isOfType n (FunctionType r a p) (PrimitiveType q) = None \<and>
   isSupertypeOf n (PrimitiveType q) (FunctionType r a p) = None"
proof (induction n rule: less_induct)
  case (less n)
  show ?case
  proof (cases n)
    case 0
    then show ?thesis by simp
  next
    case (Suc m)
    then show ?thesis using less [of m] by (cases m) (simp_all add: instanceof_def)
  qed
qed

text \<open>
  The invalid type has the inherited \<open>isOfType\<close> too, and so has an alias of it.
\<close>

lemma BaseType_isOfType_PrimitiveType_never_returns:
  "isOfType n BaseType (PrimitiveType q) = None \<and>
   isSupertypeOf n (PrimitiveType q) BaseType = None \<and>
   isOfType n (AliasType nm (Some BaseType)) (PrimitiveType q) = None"
proof -
  have loop: "isOfType n BaseType (PrimitiveType q) = None \<and>
      isSupertypeOf n (PrimitiveType q) BaseType = None" for n
  proof (induction n rule: less_induct)
    case (less n)
    show ?case
    proof (cases n)
      case 0
      then show ?thesis by simp
    next
      case (Suc m)
      then show ?thesis using less [of m] by (cases m) (simp_all add: instanceof_def)
    qed
  qed
  have "isOfType n (AliasType nm (Some BaseType)) (PrimitiveType q) = None"
    using loop [of "n - 1"] by (cases n) simp_all
  with loop [of n] show ?thesis by simp
qed

text \<open>
  More depth never changes an outcome: a comparison that returns or throws within
  \<open>n\<close> nested calls does the same within any larger number. The depth is thus no
  part of the answer; it only separates the calls that come back from those that do not.
\<close>

lemma and_then_mono:
  assumes "and_then m k = Some res"
    and "\<And>r. m = Some r \<Longrightarrow> m' = Some r"
    and "\<And>v r. m = returns v \<Longrightarrow> k v = Some r \<Longrightarrow> k' v = Some r"
  shows "and_then m' k' = Some res"
proof (cases m)
  case None
  with assms(1) show ?thesis by (simp add: and_then_def)
next
  case (Some r)
  then have m': "m' = Some r" using assms(2) by simp
  show ?thesis
  proof (cases r)
    case (Inl e)
    with Some m' assms(1) show ?thesis by (simp add: and_then_def)
  next
    case (Inr v)
    with Some assms(1) have "k v = Some res" by (simp add: and_then_def)
    then have "k' v = Some res" using assms(3) Some Inr by simp
    with m' Inr show ?thesis by (simp add: and_then_def)
  qed
qed

lemma for_every_mono:
  assumes "\<And>x r. x \<in> set xs \<Longrightarrow> f x = Some r \<Longrightarrow> g x = Some r"
    and "for_every f xs = Some res"
  shows "for_every g xs = Some res"
  using assms
proof (induction xs)
  case Nil
  then show ?case by simp
next
  case (Cons x xs)
  from Cons.prems(2) obtain r where fx: "f x = Some r" by (cases "f x") auto
  then have gx: "g x = Some r" using Cons.prems(1) by simp
  show ?case
  proof (cases r)
    case (Inl e)
    with fx gx Cons.prems(2) show ?thesis by auto
  next
    case (Inr b)
    show ?thesis
    proof (cases b)
      case False
      with Inr fx gx Cons.prems(2) show ?thesis by auto
    next
      case True
      with Inr fx Cons.prems(2) have "for_every f xs = Some res" by simp
      then have "for_every g xs = Some res" using Cons.IH Cons.prems(1) by simp
      with True Inr gx show ?thesis by auto
    qed
  qed
qed

lemma for_some_mono:
  assumes "\<And>x r. x \<in> set xs \<Longrightarrow> f x = Some r \<Longrightarrow> g x = Some r"
    and "for_some f xs = Some res"
  shows "for_some g xs = Some res"
  using assms
proof (induction xs)
  case Nil
  then show ?case by simp
next
  case (Cons x xs)
  from Cons.prems(2) obtain r where fx: "f x = Some r" by (cases "f x") auto
  then have gx: "g x = Some r" using Cons.prems(1) by simp
  show ?case
  proof (cases r)
    case (Inl e)
    with fx gx Cons.prems(2) show ?thesis by auto
  next
    case (Inr b)
    show ?thesis
    proof (cases b)
      case True
      with Inr fx gx Cons.prems(2) show ?thesis by auto
    next
      case False
      with Inr fx Cons.prems(2) have "for_some f xs = Some res" by simp
      then have "for_some g xs = Some res" using Cons.IH Cons.prems(1) by simp
      with False Inr gx show ?thesis by auto
    qed
  qed
qed

lemma property_comparison_mono:
  assumes "\<And>a b r. f a b = Some r \<Longrightarrow> g a b = Some r"
    and "and_then (Some names)
      (for_every (\<lambda>name. and_then (Some (pa name))
         (\<lambda>mine. and_then (Some (pb name)) (\<lambda>theirs. f mine theirs)))) = Some res"
  shows "and_then (Some names)
      (for_every (\<lambda>name. and_then (Some (pa name))
         (\<lambda>mine. and_then (Some (pb name)) (\<lambda>theirs. g mine theirs)))) = Some res"
proof (rule and_then_mono [OF assms(2)])
  fix v r
  assume "for_every (\<lambda>name. and_then (Some (pa name))
         (\<lambda>mine. and_then (Some (pb name)) (\<lambda>theirs. f mine theirs))) v = Some r"
  then show "for_every (\<lambda>name. and_then (Some (pa name))
         (\<lambda>mine. and_then (Some (pb name)) (\<lambda>theirs. g mine theirs))) v = Some r"
  proof (rule for_every_mono [rotated])
    fix x r'
    assume "and_then (Some (pa x))
         (\<lambda>mine. and_then (Some (pb x)) (\<lambda>theirs. f mine theirs)) = Some r'"
    then show "and_then (Some (pa x))
         (\<lambda>mine. and_then (Some (pb x)) (\<lambda>theirs. g mine theirs)) = Some r'"
    proof (rule and_then_mono)
      fix mine r''
      assume "and_then (Some (pb x)) (\<lambda>theirs. f mine theirs) = Some r''"
      then show "and_then (Some (pb x)) (\<lambda>theirs. g mine theirs) = Some r''"
        by (rule and_then_mono) (simp_all add: assms(1))
    qed simp
  qed
qed simp

lemma comparison_depth_Suc:
  "(isOfType n a b = Some r \<longrightarrow> isOfType (Suc n) a b = Some r) \<and>
   (isSupertypeOf n a b = Some r \<longrightarrow> isSupertypeOf (Suc n) a b = Some r)"
proof (induction n arbitrary: a b r)
  case 0
  show ?case by simp
next
  case (Suc n)
  have ih1: "isOfType n a b = Some r \<Longrightarrow> isOfType (Suc n) a b = Some r" for a b r
    using Suc by blast
  have ih2: "isSupertypeOf n a b = Some r \<Longrightarrow> isSupertypeOf (Suc n) a b = Some r" for a b r
    using Suc by blast
  have "isOfType (Suc (Suc n)) a b = Some r" if h: "isOfType (Suc n) a b = Some r"
  proof (cases a)
    case BaseType
    with h show ?thesis using ih2 by simp
  next
    case AnyType
    with h show ?thesis by simp
  next
    case (PrimitiveType p)
    with h show ?thesis using ih2 [of b "PrimitiveType p" r] by (simp split: if_splits)
  next
    case (AliasType nm target)
    with h show ?thesis using ih1 by (cases target) simp_all
  next
    case (UnionType ts)
    with h show ?thesis
      using for_every_mono [of ts "\<lambda>t. isOfType n t b" "\<lambda>t. isOfType (Suc n) t b" r] ih1
      by simp
  next
    case (RecordType rcd)
    show ?thesis
    proof (cases "instanceOf b KPrimitiveType")
      case True
      with h RecordType show ?thesis by simp
    next
      case np: False
      show ?thesis
      proof (cases "instanceOf b KRecordType")
        case False
        with np h RecordType show ?thesis using ih2 [of b "RecordType rcd" r] by simp
      next
        case True
        with np h RecordType show ?thesis
          using property_comparison_mono [of "isOfType n" "isOfType (Suc n)"
              "getPropertyNames b" "getProperty (RecordType rcd)" "getProperty b" r] ih1
          by simp
      qed
    qed
  next
    case (FunctionType rt as ps)
    with h show ?thesis using ih2 by simp
  qed
  moreover have "isSupertypeOf (Suc (Suc n)) a b = Some r" if h: "isSupertypeOf (Suc n) a b = Some r"
  proof (cases a)
    case BaseType
    with h show ?thesis by simp
  next
    case AnyType
    with h show ?thesis by simp
  next
    case (PrimitiveType p)
    with h show ?thesis using ih1 [of b "PrimitiveType p" r] by (simp split: if_splits)
  next
    case (AliasType nm target)
    with h show ?thesis using ih2 by (cases target) simp_all
  next
    case (UnionType ts)
    with h show ?thesis
      using for_some_mono [of ts "\<lambda>t. isSupertypeOf n t b" "\<lambda>t. isSupertypeOf (Suc n) t b" r] ih2
      by simp
  next
    case (RecordType rcd)
    show ?thesis
    proof (cases "instanceOf b KPrimitiveType")
      case True
      with h RecordType show ?thesis by simp
    next
      case np: False
      show ?thesis
      proof (cases "instanceOf b KRecordType")
        case False
        with np h RecordType show ?thesis using ih1 [of b "RecordType rcd" r] by simp
      next
        case True
        with np h RecordType show ?thesis
          using property_comparison_mono [of "isSupertypeOf n" "isSupertypeOf (Suc n)"
              "getPropertyNames (RecordType rcd)" "getProperty (RecordType rcd)"
              "getProperty b" r] ih2
          by simp
      qed
    qed
  next
    case (FunctionType rt as ps)
    with h show ?thesis by simp
  qed
  ultimately show ?case by blast
qed

lemma comparison_depth_mono:
  "n \<le> m \<Longrightarrow>
   (isOfType n a b = Some r \<longrightarrow> isOfType m a b = Some r) \<and>
   (isSupertypeOf n a b = Some r \<longrightarrow> isSupertypeOf m a b = Some r)"
proof (induction m)
  case 0
  then show ?case by simp
next
  case (Suc m)
  show ?case
  proof (cases "n = Suc m")
    case True
    then show ?thesis by simp
  next
    case False
    with Suc.prems have "n \<le> m" by simp
    then show ?thesis using Suc.IH comparison_depth_Suc [of m a b r] by blast
  qed
qed

text \<open>
  The characters that \<open>strip\<close> deletes, named one by one.
\<close>

lemma is_space_iff:
  "is_space c \<longleftrightarrow>
   c \<in> {CHR 0x09, CHR 0x0A, CHR 0x0B, CHR 0x0C, CHR 0x0D, CHR 0x20, CHR 0xA0}"
proof -
  have eq: "(of_char c = (of_char d :: nat)) = (c = d)" for c d :: char
    by simp
  have "is_space c \<longleftrightarrow>
     of_char c \<in> {of_char (CHR 0x09), of_char (CHR 0x0A), of_char (CHR 0x0B),
       of_char (CHR 0x0C), of_char (CHR 0x0D), of_char (CHR 0x20), of_char (CHR 0xA0) :: nat}"
    by (simp add: is_space_def)
  then show ?thesis by (simp only: insert_iff empty_iff eq)
qed

text \<open>
  A record whose plain object has an own property \<open>hasOwnProperty\<close> hides the
  method that \<open>getProperty\<close> calls: the call throws for every name.
\<close>

lemma getProperty_hidden_hasOwnProperty:
  "''hasOwnProperty'' \<in> fst ` set (own r) \<Longrightarrow> getProperty (RecordType r) nm = Inl TypeError"
  by (simp add: hasOwnProperty_def)

text \<open>
  A function type reads its parameters from a plain object: a name that the object
  inherits reads a value that is no type, and a parameter named \<open>hasOwnProperty\<close>
  hides the method that \<open>hasParameter\<close> calls.
\<close>

lemma getParameter_inherited_example:
  "getParameter (FunctionType Type_any [] empty_object) ''toString'' = Inr None \<and>
   getParameter (FunctionType Type_any [] empty_object) ''x'' = Inr (Some Type_any) \<and>
   getParameter (FunctionType Type_any [Type_number] (assign ''x'' Type_number empty_object)) ''x''
     = Inr (Some Type_number) \<and>
   hasParameter (FunctionType Type_any [Type_number]
       (assign ''hasOwnProperty'' Type_number empty_object)) ''x'' = Inl TypeError"
  by (simp add: read_def inherited_def empty_object_def Object_prototype_names_def
      assign_def hasOwnProperty_def)

subsection \<open>Totality of the comparison methods\<close>

text \<open>
  Claim C1 says that \<open>a.isOfType(b)\<close> and \<open>a.isSupertypeOf(b)\<close> return a boolean and
  never throw, for every pair of variants. The code does not: whenever the receiver is
  a \<open>FunctionType\<close>, \<open>isSupertypeOf\<close> throws a \<open>TypeError\<close>, whatever the argument
  and however deep the call may nest.
\<close>

theorem FunctionType_isSupertypeOf_throws:
  "isSupertypeOf (Suc n) (FunctionType returnType argumentTypes parameterTypes) otherType
     = throws TypeError"
  by simp

subsection \<open>The Unknown type\<close>

text \<open>
  Claim C2 as stated, second half: \<open>t.isOfType(U)\<close> is false unless \<open>t\<close> is the
  Unknown type. It is false of the code at the primitive \<open>string\<close>, which is not the
  Unknown type and answers \<open>true\<close>.
\<close>

theorem PrimitiveType_isOfType_any_counterexample:
  "isOfType 2 (PrimitiveType ''string'') Type_any = returns True
   \<and> PrimitiveType ''string'' \<noteq> Type_any"
  by (simp add: numeral_2_eq_2 Type_any_def instanceof_def)

text \<open>
  Claim C2, amended: for the Unknown type \<open>U\<close> and every type \<open>t\<close>,
  \<open>U.isSupertypeOf(t)\<close> is true, and \<open>U.isOfType(t)\<close> is true exactly when \<open>t\<close> is
  the Unknown type itself. In the other direction, once the call may nest deeper than
  the size of \<open>t\<close>, \<open>t.isOfType(U)\<close> is true for every \<open>t\<close> that forwards to types
  only; when an alias on the way wraps a value that is no type, the call throws.
\<close>

theorem any_isSupertypeOf_and_isOfType:
  "isSupertypeOf (Suc n) Type_any t = returns True \<and>
   isOfType (Suc n) Type_any t = returns (t = Type_any) \<and>
   (Suc (size t) < n \<longrightarrow>
      isOfType n t Type_any
        = (if forwards_to_types t then returns True else throws TypeError))"
  using isOfType_any [of t n] by (simp add: Type_any_def)

theorem any_isSupertypeOf_and_isOfType_witness:
  "Suc (size (UnionType [Type_string])) < 4 \<and>
   isOfType 4 (UnionType [Type_string]) Type_any = returns True \<and>
   isOfType 5 Type_any (UnionType [Type_string]) = returns False \<and>
   isSupertypeOf 5 Type_any (UnionType [Type_string]) = returns True"
  using any_isSupertypeOf_and_isOfType [of 4 "UnionType [Type_string]"]
  by (simp add: Type_any_def Type_string_def new_PrimitiveType_def)

subsection \<open>Union types\<close>

text \<open>
  Claim C3: for a union \<open>U\<close> of \<open>A\<close> and \<open>B\<close> and every \<open>x\<close>,
  \<open>U.isSupertypeOf(x)\<close> is \<open>A.isSupertypeOf(x) || B.isSupertypeOf(x)\<close> and
  \<open>U.isOfType(x)\<close> is \<open>A.isOfType(x) && B.isOfType(x)\<close>, with the operators of
  JavaScript (the right call is made only when the left one has not decided; a throw
  or a call that does not return is passed on). The two methods are not the same
  relation read in two directions: the union of \<open>string\<close> and \<open>number\<close> is a supertype
  of \<open>string\<close> and is not of type \<open>string\<close>.
\<close>

theorem UnionType_isSupertypeOf_some_isOfType_every:
  "isSupertypeOf (Suc n) (UnionType [A, B]) x
     = js_or (isSupertypeOf n A x) (isSupertypeOf n B x) \<and>
   isOfType (Suc n) (UnionType [A, B]) x
     = js_and (isOfType n A x) (isOfType n B x) \<and>
   isSupertypeOf 2 (UnionType [Type_string, Type_number]) Type_string = returns True \<and>
   isOfType 2 (UnionType [Type_string, Type_number]) Type_string = returns False"
proof -
  have "isSupertypeOf (Suc n) (UnionType [A, B]) x
      = js_or (isSupertypeOf n A x) (isSupertypeOf n B x)"
    by (simp add: js_or_def split: option.splits sum.splits)
  moreover have "isOfType (Suc n) (UnionType [A, B]) x
      = js_and (isOfType n A x) (isOfType n B x)"
    by (simp add: js_and_def split: option.splits sum.splits)
  moreover have "isSupertypeOf 2 (UnionType [Type_string, Type_number]) Type_string
      = returns True"
    by (simp add: numeral_2_eq_2 Type_string_def Type_number_def new_PrimitiveType_def
        instanceof_def)
  moreover have "isOfType 2 (UnionType [Type_string, Type_number]) Type_string
      = returns False"
    by (simp add: numeral_2_eq_2 Type_string_def Type_number_def new_PrimitiveType_def
        instanceof_def strip_def is_space_def)
  ultimately show ?thesis by blast
qed

subsection \<open>Primitive types\<close>

text \<open>
  Claim C4: for primitives \<open>p\<close> and \<open>q\<close>, built from any two names, \<open>p.isOfType(q)\<close>
  and \<open>p.isSupertypeOf(q)\<close> are true exactly when the stripped names are equal, and
  so are the two calls with \<open>p\<close> and \<open>q\<close> exchanged. The comparison is on the
  stored names, so two instances with the same stripped name are equal. The stripped
  name is the name without its tabs, line feeds, vertical tabs, form feeds, carriage
  returns, spaces and no-break spaces, and with every other character kept in place:
  a name written with a tab before it and spaces inside and after it is the primitive
  \<open>string\<close>, and \<open>string\<close> is not \<open>strin\<close>.
\<close>

theorem PrimitiveType_equal_iff_stripped_names_equal:
  "isOfType (Suc n) (new_PrimitiveType p) (new_PrimitiveType q)
     = returns (strip p = strip q) \<and>
   isSupertypeOf (Suc n) (new_PrimitiveType p) (new_PrimitiveType q)
     = returns (strip p = strip q) \<and>
   isOfType (Suc n) (new_PrimitiveType q) (new_PrimitiveType p)
     = returns (strip p = strip q) \<and>
   isSupertypeOf (Suc n) (new_PrimitiveType q) (new_PrimitiveType p)
     = returns (strip p = strip q) \<and>
   toString (new_PrimitiveType p) = Inr (strip p) \<and>
   strip p = filter (\<lambda>c. c \<notin> {CHR 0x09, CHR 0x0A, CHR 0x0B, CHR 0x0C, CHR 0x0D,
      CHR 0x20, CHR 0xA0}) p \<and>
   isOfType 1 (new_PrimitiveType (CHR 0x09 # '' str ing '')) (new_PrimitiveType ''string'')
     = returns True \<and>
   isOfType 1 (new_PrimitiveType ''string'') (new_PrimitiveType ''strin'') = returns False"
proof -
  have filter: "strip s = filter (\<lambda>c. c \<notin> {CHR 0x09, CHR 0x0A, CHR 0x0B, CHR 0x0C, CHR 0x0D,
      CHR 0x20, CHR 0xA0}) s" for s
    unfolding strip_def by (rule filter_cong) (simp_all only: is_space_iff)
  have spaced: "strip (CHR 0x09 # '' str ing '') = ''string''"
    unfolding filter by simp
  have plain: "strip ''string'' = ''string''" "strip ''strin'' = ''strin''"
    unfolding filter by simp_all
  have compare: "isOfType (Suc k) (new_PrimitiveType a) (new_PrimitiveType b)
      = returns (strip a = strip b)"
    "isSupertypeOf (Suc k) (new_PrimitiveType a) (new_PrimitiveType b)
      = returns (strip a = strip b)" for k a b
    by (simp_all add: new_PrimitiveType_def instanceof_def)
  have "isOfType 1 (new_PrimitiveType (CHR 0x09 # '' str ing '')) (new_PrimitiveType ''string'')
     = returns True"
    using compare(1) [of 0] by (simp only: One_nat_def spaced plain simp_thms)
  moreover have "isOfType 1 (new_PrimitiveType ''string'') (new_PrimitiveType ''strin'')
      = returns False"
    using compare(1) [of 0 "''string''" "''strin''"] by (simp add: plain)
  moreover have "toString (new_PrimitiveType p) = Inr (strip p)"
    by (simp add: new_PrimitiveType_def)
  ultimately show ?thesis
    using compare [of n p q] compare [of n q p] filter [of p] by auto
qed

subsection \<open>Property access\<close>

text \<open>
  Claim C7 as stated, second half: \<open>getProperty\<close> of a non-record variant is the
  Unknown type. It is false of the code at the primitive \<open>string\<close>, whose
  \<open>getProperty\<close> is the inherited one and answers the invalid type.
\<close>

theorem PrimitiveType_getProperty_counterexample:
  "getProperty Type_string ''length'' = Inr Type_invalid \<and> Type_invalid \<noteq> Type_any"
  by (simp add: Type_string_def new_PrimitiveType_def Type_invalid_def Type_any_def)

text \<open>
  Claim C7, amended: \<open>getProperty(name)\<close> is the Unknown type for every record that
  has no property named \<open>hasOwnProperty\<close> and every name absent from its map, and for
  the Unknown type; for a primitive, a union, a function and the invalid type it is the
  invalid type; for an alias of a type it is what the target answers.
\<close>

theorem getProperty_without_binding:
  "(''hasOwnProperty'' \<notin> fst ` set (own r) \<and> nm \<notin> fst ` set (own r) \<longrightarrow>
      getProperty (RecordType r) nm = Inr Type_any) \<and>
   getProperty Type_any nm = Inr Type_any \<and>
   getProperty (PrimitiveType p) nm = Inr Type_invalid \<and>
   getProperty (UnionType members) nm = Inr Type_invalid \<and>
   getProperty (FunctionType returnType argumentTypes parameterTypes) nm = Inr Type_invalid \<and>
   getProperty Type_invalid nm = Inr Type_invalid \<and>
   getProperty (AliasType alias (Some t)) nm = getProperty t nm"
  by (simp add: Type_any_def Type_invalid_def hasOwnProperty_def)

theorem getProperty_without_binding_witness:
  "''hasOwnProperty'' \<notin> fst ` set (own (PlainObject [(''x'', Type_number)] None)) \<and>
   ''y'' \<notin> fst ` set (own (PlainObject [(''x'', Type_number)] None)) \<and>
   getProperty (RecordType (PlainObject [(''x'', Type_number)] None)) ''y'' = Inr Type_any \<and>
   getProperty (RecordType (PlainObject [(''x'', Type_number)] None)) ''x'' = Inr Type_number"
  using getProperty_without_binding [of "PlainObject [(''x'', Type_number)] None" "''y''"]
  by (simp add: hasOwnProperty_def)

subsection \<open>The empty record\<close>

text \<open>
  Claim C8 as stated: the empty record is a supertype of no type but itself. It is
  false of the code at the record with one property \<open>a\<close>, which is not the empty
  record and of which the empty record is a supertype.
\<close>

theorem Type_object_isSupertypeOf_counterexample:
  "isSupertypeOf 1 Type_object (RecordType (PlainObject [(''a'', Type_number)] None))
     = returns True \<and>
   RecordType (PlainObject [(''a'', Type_number)] None) \<noteq> Type_object"
  by (simp add: Type_object_def instanceof_def Object_keys_def and_then_def
      empty_object_def)

text \<open>
  Claim C8, amended: the empty record is a supertype of every record, and of every alias
  whose target is a record; it is not a supertype of a primitive, of an alias whose
  target is a primitive, or of the Unknown type.
\<close>

theorem Type_object_isSupertypeOf:
  "(instanceOf t KRecordType \<longrightarrow> isSupertypeOf (Suc n) Type_object t = returns True) \<and>
   (instanceOf t KPrimitiveType \<longrightarrow> isSupertypeOf (Suc n) Type_object t = returns False) \<and>
   isSupertypeOf (Suc (Suc n)) Type_object Type_any = returns False"
  using instanceOf_RecordType_not_PrimitiveType [of t]
  by (auto simp: Type_object_def Type_any_def instanceof_def Object_keys_empty_object
      and_then_def)

theorem Type_object_isSupertypeOf_witness:
  "instanceOf (AliasType ''Pair'' (Some (RecordType (PlainObject [(''a'', Type_number)] None))))
     KRecordType \<and>
   isSupertypeOf 1 Type_object
       (AliasType ''Pair'' (Some (RecordType (PlainObject [(''a'', Type_number)] None))))
     = returns True \<and>
   instanceOf Type_string KPrimitiveType \<and>
   isSupertypeOf 1 Type_object Type_string = returns False"
  using Type_object_isSupertypeOf
      [of "AliasType ''Pair'' (Some (RecordType (PlainObject [(''a'', Type_number)] None)))" 0]
    Type_object_isSupertypeOf [of Type_string 0]
  by (simp add: instanceof_def Type_string_def new_PrimitiveType_def)

section \<open>Properties of the translator\<close>

subsection \<open>Auxiliary facts\<close>

lemma Type_number_unfold: "Type_number = PrimitiveType ''number''"
  by (simp add: Type_number_def new_PrimitiveType_def strip_def is_space_def)

lemma Type_string_unfold: "Type_string = PrimitiveType ''string''"
  by (simp add: Type_string_def new_PrimitiveType_def strip_def is_space_def)

lemma Point_isOfType_same_shape:
  "isOfType 2 (RecordType (PlainObject [(''x'', Type_number), (''y'', Type_number)] None))
     (RecordType (PlainObject [(''x'', Type_number), (''y'', Type_number)] None))
   = returns True"
  by (simp add: numeral_2_eq_2 instanceof_def Type_number_unfold Object_keys_def
      is_array_index_def is_digit_def hasOwnProperty_def and_then_def)

lemma Point_isOfType_other_shape:
  "isOfType 2 (RecordType (PlainObject [(''x'', Type_number), (''y'', Type_number)] None))
     (RecordType (PlainObject [(''x'', Type_string), (''y'', Type_number)] None))
   = returns False"
  by (simp add: numeral_2_eq_2 instanceof_def Type_number_unfold Type_string_unfold
      Object_keys_def is_array_index_def is_digit_def hasOwnProperty_def and_then_def)

text \<open>
  Assignment to a plain object, and reading back what was assigned: the read finds the
  value under every name, \<open>__proto__\<close> included, where it reads the prototype that the
  assignment has installed.
\<close>

lemma own_names_assign:
  "fst ` set (own (assign k v obj)) =
     (if k = ''__proto__'' \<and> ''__proto__'' \<notin> fst ` set (own obj) then fst ` set (own obj)
      else insert k (fst ` set (own obj)))"
  by (simp add: assign_def dom_update)

lemma set_update_subset: "set (AList.update k v al) \<subseteq> insert (k, v) (set al)"
  by (induction al) auto

lemma own_assign_subset: "set (own (assign k v obj)) \<subseteq> insert (k, v) (set (own obj))"
  using set_update_subset [of k v "own obj"] by (auto simp: assign_def)

lemma instance_field_proto: "instance_field t ''__proto__'' = None"
  by (cases t) simp_all

lemma read_assign_same: "read (assign k v obj) k = Some (Some v)"
proof (cases "k = ''__proto__'' \<and> ''__proto__'' \<notin> fst ` set (own obj)")
  case True
  then have "map_of (own obj) ''__proto__'' = None" by (simp add: map_of_eq_None_iff)
  with True show ?thesis
    by (simp add: read_def assign_def inherited_def instance_field_proto Type_prototype_names_def)
next
  case False
  then show ?thesis by (auto simp: read_def assign_def update_conv')
qed

lemma read_own: "map_of (own obj) k = Some t \<Longrightarrow> read obj k = Some (Some t)"
  by (simp add: read_def)

text \<open>
  Tags before the first one that decides are passed over.
\<close>

lemma Type_fromDoctrine_tags_skip:
  "\<forall>tag\<in>set pre. title tag \<notin> {''typedef'', ''type'', ''return'', ''returns'', ''param''} \<Longrightarrow>
   Type_fromDoctrine_tags n rec typedefs (pre @ rest) = Type_fromDoctrine_tags n rec typedefs rest"
  by (induction pre) auto

text \<open>
  The loop of the record translator, when the type of every \<open>property\<close> tag translates:
  it ends with an object whose own names are those it started with and the names of the
  \<open>property\<close> tags other than \<open>__proto__\<close>, and every property it adds is the
  translation of a tag of that name.
\<close>

lemma property_loop:
  assumes "\<forall>tag\<in>set tags. title tag = ''property'' \<longrightarrow> (\<exists>v. f (tag_type tag) rec typedefs = returns v)"
    and "''__proto__'' \<notin> fst ` set (own acc)"
  shows "\<exists>rcd.
    for_each
      (\<lambda>record tag.
         if title tag = ''property''
         then and_then (f (tag_type tag) rec typedefs)
           (\<lambda>v. returns (assign (tag_name tag) v record))
         else returns record)
      acc tags = returns rcd \<and>
    fst ` set (own rcd) = fst ` set (own acc) \<union>
      {tag_name tag |tag. tag \<in> set tags \<and> title tag = ''property'' \<and> tag_name tag \<noteq> ''__proto__''} \<and>
    (\<forall>(k, v)\<in>set (own rcd). (k, v) \<in> set (own acc) \<or>
       (\<exists>tag\<in>set tags. title tag = ''property'' \<and> tag_name tag = k \<and>
          f (tag_type tag) rec typedefs = returns v))"
  using assms
proof (induction tags arbitrary: acc)
  case Nil
  then show ?case by auto
next
  case (Cons tag tags)
  let ?step = "\<lambda>record tag.
         if title tag = ''property''
         then and_then (f (tag_type tag) rec typedefs)
           (\<lambda>v. returns (assign (tag_name tag) v record))
         else returns record"
  from Cons.prems have rest: "\<forall>tag\<in>set tags. title tag = ''property'' \<longrightarrow>
      (\<exists>v. f (tag_type tag) rec typedefs = returns v)"
    by simp
  show ?case
  proof (cases "title tag = ''property''")
    case False
    from Cons.IH [OF rest Cons.prems(2)] obtain rcd where
      r: "for_each ?step acc tags = returns rcd"
         "fst ` set (own rcd) = fst ` set (own acc) \<union>
            {tag_name tag |tag. tag \<in> set tags \<and> title tag = ''property'' \<and> tag_name tag \<noteq> ''__proto__''}"
         "\<forall>(k, v)\<in>set (own rcd). (k, v) \<in> set (own acc) \<or>
           (\<exists>tag\<in>set tags. title tag = ''property'' \<and> tag_name tag = k \<and>
              f (tag_type tag) rec typedefs = returns v)"
      by blast
    have "for_each ?step acc (tag # tags) = returns rcd"
      using False r(1) by (simp add: and_then_def)
    moreover have "fst ` set (own rcd) = fst ` set (own acc) \<union>
        {tag_name t |t. t \<in> set (tag # tags) \<and> title t = ''property'' \<and> tag_name t \<noteq> ''__proto__''}"
      using False r(2) by auto
    moreover have "\<forall>(k, v)\<in>set (own rcd). (k, v) \<in> set (own acc) \<or>
           (\<exists>t\<in>set (tag # tags). title t = ''property'' \<and> tag_name t = k \<and>
              f (tag_type t) rec typedefs = returns v)"
      using r(3) by fastforce
    ultimately show ?thesis by blast
  next
    case True
    with Cons.prems obtain v where v: "f (tag_type tag) rec typedefs = returns v" by auto
    let ?acc = "assign (tag_name tag) v acc"
    have names: "fst ` set (own ?acc) =
        (if tag_name tag = ''__proto__'' then fst ` set (own acc)
         else insert (tag_name tag) (fst ` set (own acc)))"
      using Cons.prems(2) by (simp add: own_names_assign)
    then have clean: "''__proto__'' \<notin> fst ` set (own ?acc)"
      using Cons.prems(2) by (auto split: if_splits)
    from Cons.IH [OF rest clean] obtain rcd where
      r: "for_each ?step ?acc tags = returns rcd"
         "fst ` set (own rcd) = fst ` set (own ?acc) \<union>
            {tag_name tag |tag. tag \<in> set tags \<and> title tag = ''property'' \<and> tag_name tag \<noteq> ''__proto__''}"
         "\<forall>(k, w)\<in>set (own rcd). (k, w) \<in> set (own ?acc) \<or>
           (\<exists>tag\<in>set tags. title tag = ''property'' \<and> tag_name tag = k \<and>
              f (tag_type tag) rec typedefs = returns w)"
      by blast
    have "for_each ?step acc (tag # tags) = returns rcd"
      using True v r(1) by (simp add: and_then_def)
    moreover have "fst ` set (own rcd) = fst ` set (own acc) \<union>
        {tag_name t |t. t \<in> set (tag # tags) \<and> title t = ''property'' \<and> tag_name t \<noteq> ''__proto__''}"
      using True r(2) names by auto
    moreover have "\<forall>(k, w)\<in>set (own rcd). (k, w) \<in> set (own acc) \<or>
           (\<exists>t\<in>set (tag # tags). title t = ''property'' \<and> tag_name t = k \<and>
              f (tag_type t) rec typedefs = returns w)"
    proof -
      have "(k, w) \<in> set (own acc) \<or>
           (\<exists>t\<in>set (tag # tags). title t = ''property'' \<and> tag_name t = k \<and>
              f (tag_type t) rec typedefs = returns w)" if "(k, w) \<in> set (own rcd)" for k w
      proof -
        from r(3) that consider "(k, w) \<in> set (own ?acc)"
          | "\<exists>t\<in>set tags. title t = ''property'' \<and> tag_name t = k \<and>
              f (tag_type t) rec typedefs = returns w"
          by blast
        then show ?thesis
        proof cases
          case 1
          then have "(k, w) = (tag_name tag, v) \<or> (k, w) \<in> set (own acc)"
            using own_assign_subset [of "tag_name tag" v acc] by blast
          then show ?thesis using True v by auto
        next
          case 2
          then show ?thesis by auto
        qed
      qed
      then show ?thesis by blast
    qed
    ultimately show ?thesis by blast
  qed
qed

text \<open>
  A \<open>property\<close> tag whose own type is \<open>object\<close> sends the record translator back
  over the same tag list, where it meets the same tag again: the translation of such a
  typedef never returns, whatever depth it is given.
\<close>

lemma nested_object_property_never_returns:
  "Type_fromDoctrineType n (Some (NameExpression ''object''))
     (Some [Tag ''typedef'' ''Pair'' (Some (NameExpression ''object'')),
            Tag ''property'' ''a'' (Some (NameExpression ''object''))]) typedefs = None"
  by (induction n) (simp_all add: RecordType_fromDoctrineType_over_def and_then_def)

text \<open>
  The registry is read like any plain object, so the names it inherits count as
  registered: in an empty registry the name \<open>constructor\<close> translates to an alias of
  the inherited function, on which every forwarded call throws, while a name that is
  neither registered nor inherited translates to a primitive.
\<close>

lemma inherited_name_is_aliased:
  "PrimitiveType_fromDoctrineType (NameExpression ''constructor'') rec empty_object
     = AliasType ''constructor'' None \<and>
   isOfType (Suc n) (AliasType ''constructor'' None) x = throws TypeError \<and>
   PrimitiveType_fromDoctrineType (NameExpression ''Point'') rec empty_object
     = PrimitiveType ''Point''"
  by (simp add: PrimitiveType_fromDoctrineType_def read_def inherited_def empty_object_def
      Object_prototype_names_def new_PrimitiveType_def strip_def is_space_def)

text \<open>
  What the translator returns or throws within \<open>n\<close> nested calls of the dispatcher
  it returns or throws within any larger number.
\<close>

lemma for_each_mono:
  assumes "\<And>s x r. x \<in> set xs \<Longrightarrow> f s x = Some r \<Longrightarrow> g s x = Some r"
    and "for_each f s xs = Some res"
  shows "for_each g s xs = Some res"
  using assms
proof (induction xs arbitrary: s res)
  case Nil
  then show ?case by simp
next
  case (Cons x xs)
  have "and_then (g s x) (\<lambda>s'. for_each g s' xs) = Some res"
  proof (rule and_then_mono)
    show "and_then (f s x) (\<lambda>s'. for_each f s' xs) = Some res"
      using Cons.prems(2) by simp
    show "g s x = Some r" if "f s x = Some r" for r
      using that Cons.prems(1) by simp
    show "for_each g v xs = Some r" if "for_each f v xs = Some r" for v r
      using that Cons.IH Cons.prems(1) by simp
  qed
  then show ?case by simp
qed

lemma map_result_mono:
  assumes "\<And>x r. x \<in> set xs \<Longrightarrow> f x = Some r \<Longrightarrow> g x = Some r"
    and "map_result f xs = Some res"
  shows "map_result g xs = Some res"
  using assms
proof (induction xs arbitrary: res)
  case Nil
  then show ?case by simp
next
  case (Cons x xs)
  have "and_then (g x) (\<lambda>y. and_then (map_result g xs) (\<lambda>ys. returns (y # ys))) = Some res"
  proof (rule and_then_mono)
    show "and_then (f x) (\<lambda>y. and_then (map_result f xs) (\<lambda>ys. returns (y # ys))) = Some res"
      using Cons.prems(2) by simp
    show "g x = Some r" if "f x = Some r" for r
      using that Cons.prems(1) by simp
    show "and_then (map_result g xs) (\<lambda>ys. returns (v # ys)) = Some r"
      if "and_then (map_result f xs) (\<lambda>ys. returns (v # ys)) = Some r" for v r
    proof (rule and_then_mono [OF that])
      show "map_result g xs = Some r'" if "map_result f xs = Some r'" for r'
        using that Cons.IH Cons.prems(1) by simp
    qed simp
  qed
  then show ?case by simp
qed

lemma RecordType_fromDoctrineType_over_mono:
  assumes "\<And>t rec typedefs r. f t rec typedefs = Some r \<Longrightarrow> g t rec typedefs = Some r"
    and "RecordType_fromDoctrineType_over f t rec typedefs = Some res"
  shows "RecordType_fromDoctrineType_over g t rec typedefs = Some res"
proof (cases t)
  case None
  with assms(2) show ?thesis by (simp add: RecordType_fromDoctrineType_over_def)
next
  case (Some d)
  show ?thesis
  proof (cases "type d = ''NameExpression'' \<and> name d = ''object''")
    case False
    with Some assms(2) show ?thesis by (auto simp: RecordType_fromDoctrineType_over_def)
  next
    case obj: True
    show ?thesis
    proof (cases rec)
      case None
      with Some obj assms(2) show ?thesis by (simp add: RecordType_fromDoctrineType_over_def)
    next
      case (Some tags)
      let ?step = "\<lambda>h record tag.
          if title tag = ''property''
          then and_then (h (tag_type tag) (Some tags) typedefs)
            (\<lambda>v. returns (assign (tag_name tag) v record))
          else returns record"
      have f: "and_then (for_each (?step f) empty_object tags) (\<lambda>record. returns (RecordType record)) = Some res"
        using assms(2) \<open>t = Some d\<close> obj Some by (simp add: RecordType_fromDoctrineType_over_def)
      have "and_then (for_each (?step g) empty_object tags) (\<lambda>record. returns (RecordType record)) = Some res"
      proof (rule and_then_mono [OF f])
        show "for_each (?step g) empty_object tags = Some r" if "for_each (?step f) empty_object tags = Some r" for r
        proof (rule for_each_mono [OF _ that])
          show "?step g s x = Some r'" if "?step f s x = Some r'" for s x r'
          proof (cases "title x = ''property''")
            case False
            with that show ?thesis by simp
          next
            case True
            with that have "and_then (f (tag_type x) (Some tags) typedefs)
                (\<lambda>v. returns (assign (tag_name x) v s)) = Some r'" by simp
            then have "and_then (g (tag_type x) (Some tags) typedefs)
                (\<lambda>v. returns (assign (tag_name x) v s)) = Some r'"
              by (rule and_then_mono) (simp_all add: assms(1))
            with True show ?thesis by simp
          qed
        qed
      qed simp
      then show ?thesis
        using \<open>t = Some d\<close> obj Some by (simp add: RecordType_fromDoctrineType_over_def)
    qed
  qed
qed

lemma UnionType_fromDoctrineType_over_mono:
  assumes "\<And>t rec typedefs r. f t rec typedefs = Some r \<Longrightarrow> g t rec typedefs = Some r"
    and "UnionType_fromDoctrineType_over f t rec typedefs = Some res"
  shows "UnionType_fromDoctrineType_over g t rec typedefs = Some res"
  unfolding UnionType_fromDoctrineType_over_def
proof (rule and_then_mono [OF assms(2) [unfolded UnionType_fromDoctrineType_over_def]])
  show "map_result (\<lambda>element. g (Some element) None typedefs) (elements t) = Some r"
    if "map_result (\<lambda>element. f (Some element) None typedefs) (elements t) = Some r" for r
    by (rule map_result_mono [OF _ that]) (simp add: assms(1))
qed simp

lemma FunctionType_fromDoctrineType_over_mono:
  assumes "\<And>t rec typedefs r. f t rec typedefs = Some r \<Longrightarrow> g t rec typedefs = Some r"
    and "FunctionType_fromDoctrineType_over f t rec typedefs = Some res"
  shows "FunctionType_fromDoctrineType_over g t rec typedefs = Some res"
  unfolding FunctionType_fromDoctrineType_over_def
proof (rule and_then_mono [OF assms(2) [unfolded FunctionType_fromDoctrineType_over_def]])
  show "(case result t of None \<Rightarrow> returns Type_any | Some r \<Rightarrow> g (Some r) rec typedefs) = Some r'"
    if "(case result t of None \<Rightarrow> returns Type_any | Some r \<Rightarrow> f (Some r) rec typedefs) = Some r'"
    for r'
    using that assms(1) by (cases "result t") auto
  show "and_then (map_result (\<lambda>param. g (Some param) rec typedefs) (params t))
          (\<lambda>paramTypes. returns (FunctionType v paramTypes empty_object)) = Some r"
    if "and_then (map_result (\<lambda>param. f (Some param) rec typedefs) (params t))
          (\<lambda>paramTypes. returns (FunctionType v paramTypes empty_object)) = Some r" for v r
  proof (rule and_then_mono [OF that])
    show "map_result (\<lambda>param. g (Some param) rec typedefs) (params t) = Some r'"
      if "map_result (\<lambda>param. f (Some param) rec typedefs) (params t) = Some r'" for r'
      by (rule map_result_mono [OF _ that]) (simp add: assms(1))
  qed simp
qed

lemma Type_fromDoctrineType_depth_Suc:
  "Type_fromDoctrineType n t rec typedefs = Some r \<Longrightarrow>
   Type_fromDoctrineType (Suc n) t rec typedefs = Some r"
proof (induction n arbitrary: t rec typedefs r)
  case 0
  then show ?case by simp
next
  case (Suc n)
  have ih: "Type_fromDoctrineType n t rec typedefs = Some r \<Longrightarrow>
      Type_fromDoctrineType (Suc n) t rec typedefs = Some r" for t rec typedefs r
    by (rule Suc.IH)
  show ?case
  proof (cases t)
    case None
    with Suc.prems show ?thesis by simp
  next
    case (Some d)
    with Suc.prems show ?thesis
      using RecordType_fromDoctrineType_over_mono
          [of "Type_fromDoctrineType n" "Type_fromDoctrineType (Suc n)" "Some d" rec typedefs r]
        UnionType_fromDoctrineType_over_mono
          [of "Type_fromDoctrineType n" "Type_fromDoctrineType (Suc n)" d rec typedefs r]
        FunctionType_fromDoctrineType_over_mono
          [of "Type_fromDoctrineType n" "Type_fromDoctrineType (Suc n)" d rec typedefs r]
        ih
      by (simp del: Type_fromDoctrineType.simps(2)
          add: Type_fromDoctrineType.simps(2) [of n] Type_fromDoctrineType.simps(2) [of "Suc n"]
          split: if_splits)
  qed
qed

lemma Type_fromDoctrineType_depth_mono:
  "n \<le> m \<Longrightarrow> Type_fromDoctrineType n t rec typedefs = Some r \<Longrightarrow>
   Type_fromDoctrineType m t rec typedefs = Some r"
proof (induction m)
  case 0
  then show ?case by simp
next
  case (Suc m)
  show ?case
  proof (cases "n = Suc m")
    case True
    with Suc.prems show ?thesis by simp
  next
    case False
    with Suc.prems have "n \<le> m" by simp
    then show ?thesis using Suc.IH Suc.prems(2) Type_fromDoctrineType_depth_Suc by blast
  qed
qed

subsection \<open>Unrecognised expressions\<close>

text \<open>
  Claim C9: translating a type expression whose discriminator is none of
  \<open>FunctionType\<close>, \<open>RecordType\<close>, \<open>UnionType\<close>, \<open>NameExpression\<close> and
  \<open>UndefinedLiteral\<close> throws the error \<open>Die\<close>; no type is returned. The error
  reaches the caller: \<open>Type.fromDoctrine\<close> on a list that starts with a \<open>type\<close> tag
  of that expression throws it too, and so does the translation of a union whose first
  alternative is that expression.
\<close>

theorem unrecognised_discriminator_throws:
  "type t \<notin> {''FunctionType'', ''RecordType'', ''UnionType'', ''NameExpression'',
      ''UndefinedLiteral''} \<Longrightarrow>
   Type_fromDoctrineType (Suc n) (Some t) rec typedefs = throws (Die (type t)) \<and>
   Type_fromDoctrine (Suc n) (Some (Tag ''type'' nm (Some t) # tags)) typedefs
     = throws (Die (type t)) \<and>
   Type_fromDoctrineType (Suc (Suc n)) (Some (Node ''UnionType'' nm (t # ts) ps r)) rec typedefs
     = throws (Die (type t))"
  by (simp add: Type_fromDoctrine_def and_then_def UnionType_fromDoctrineType_over_def)

theorem unrecognised_discriminator_throws_witness:
  "type (Node ''NullableType'' [] [] [] None) \<notin> {''FunctionType'', ''RecordType'',
      ''UnionType'', ''NameExpression'', ''UndefinedLiteral''} \<and>
   Type_fromDoctrineType 1 (Some (Node ''NullableType'' [] [] [] None)) None empty_object
     = throws (Die ''NullableType'')"
  using unrecognised_discriminator_throws
    [of "Node ''NullableType'' [] [] [] None" 0 None empty_object]
  by simp

subsection \<open>Aliases\<close>

text \<open>
  Claim C5: when the registry holds a target type under a name (as an own property, or
  wherever else the read of that name finds a type), translating the name expression of
  that name yields the alias of the target under that name: always in
  \<open>PrimitiveType.fromDoctrineType\<close>, where the registry is looked up, and in the
  dispatcher \<open>Type.fromDoctrineType\<close> for every name it sends there, that is every
  name but \<open>object\<close>. The alias renders as the name, and it answers \<open>isOfType\<close>,
  \<open>isSupertypeOf\<close> and every property, argument and parameter accessor with the
  target's answer (one call deeper for the two comparisons).
\<close>

theorem alias_of_registered_typedef:
  "read typedefs nm = Some (Some target) \<Longrightarrow>
   PrimitiveType_fromDoctrineType (NameExpression nm) rec typedefs
     = AliasType nm (Some target) \<and>
   (nm \<noteq> ''object'' \<longrightarrow>
      Type_fromDoctrineType (Suc n) (Some (NameExpression nm)) rec typedefs
        = returns (AliasType nm (Some target))) \<and>
   toString (AliasType nm (Some target)) = Inr nm \<and>
   isOfType (Suc k) (AliasType nm (Some target)) x = isOfType k target x \<and>
   isSupertypeOf (Suc k) (AliasType nm (Some target)) x = isSupertypeOf k target x \<and>
   getPropertyNames (AliasType nm (Some target)) = getPropertyNames target \<and>
   getProperty (AliasType nm (Some target)) p = getProperty target p \<and>
   getReturn (AliasType nm (Some target)) = getReturn target \<and>
   getArgumentCount (AliasType nm (Some target)) = getArgumentCount target \<and>
   getArgument (AliasType nm (Some target)) i = getArgument target i \<and>
   getParameter (AliasType nm (Some target)) p = getParameter target p \<and>
   hasParameter (AliasType nm (Some target)) p = hasParameter target p"
  by (simp add: PrimitiveType_fromDoctrineType_def)

theorem alias_of_registered_typedef_witness:
  "read (PlainObject
      [(''Point'', RecordType (PlainObject [(''x'', Type_number), (''y'', Type_number)] None))]
      None) ''Point''
     = Some (Some (RecordType (PlainObject [(''x'', Type_number), (''y'', Type_number)] None))) \<and>
   ''Point'' \<noteq> ''object'' \<and>
   Type_fromDoctrineType 1 (Some (NameExpression ''Point'')) None
       (PlainObject
         [(''Point'', RecordType (PlainObject [(''x'', Type_number), (''y'', Type_number)] None))]
         None)
     = returns (AliasType ''Point''
         (Some (RecordType (PlainObject [(''x'', Type_number), (''y'', Type_number)] None)))) \<and>
   toString (AliasType ''Point''
       (Some (RecordType (PlainObject [(''x'', Type_number), (''y'', Type_number)] None))))
     = Inr ''Point'' \<and>
   isOfType 3 (AliasType ''Point''
         (Some (RecordType (PlainObject [(''x'', Type_number), (''y'', Type_number)] None))))
       (RecordType (PlainObject [(''x'', Type_number), (''y'', Type_number)] None))
     = returns True \<and>
   isOfType 3 (AliasType ''Point''
         (Some (RecordType (PlainObject [(''x'', Type_number), (''y'', Type_number)] None))))
       (RecordType (PlainObject [(''x'', Type_string), (''y'', Type_number)] None))
     = returns False"
proof -
  let ?R = "RecordType (PlainObject [(''x'', Type_number), (''y'', Type_number)] None)"
  let ?reg = "PlainObject [(''Point'', ?R)] None"
  have reg: "read ?reg ''Point'' = Some (Some ?R)"
    by (simp add: read_def)
  have ne: "''Point'' \<noteq> ''object''" by simp
  show ?thesis
    using reg ne Point_isOfType_same_shape Point_isOfType_other_shape
      alias_of_registered_typedef
        [of ?reg "''Point''" ?R None 0 2 ?R "''x''" 0, OF reg]
      alias_of_registered_typedef
        [of ?reg "''Point''" ?R None 0 2
          "RecordType (PlainObject [(''x'', Type_string), (''y'', Type_number)] None)"
          "''x''" 0, OF reg]
    by (simp only: One_nat_def numeral_3_eq_3 numeral_2_eq_2 simp_thms)
qed

text \<open>
  The forwarding is on the alias as receiver. As an argument an alias is not its
  target: \<open>AliasType\<close> answers \<open>instanceOf(PrimitiveType)\<close> for its target and inherits
  \<open>getPrimitive\<close>, which is \<open>undefined\<close>, so the primitive \<open>string\<close> is of type
  \<open>string\<close> and is not of the type of an alias of \<open>string\<close>.
\<close>

lemma alias_as_argument_is_not_its_target:
  "isOfType 1 Type_string Type_string = returns True \<and>
   isOfType 1 Type_string (AliasType ''S'' (Some Type_string)) = returns False"
  by (simp add: Type_string_unfold instanceof_def)

subsection \<open>Typedef declarations\<close>

text \<open>
  Claim C6 as stated: a tag list whose first deciding tag is a typedef of the name
  expression \<open>object\<close> registers a record and yields the Unknown type. It is false of
  the code at a typedef with a property whose type expression the translator does not
  recognise: the translation throws, so nothing is yielded and nothing is registered.
\<close>

theorem typedef_with_unrecognised_property_counterexample:
  "Type_fromDoctrine 1
     (Some [Tag ''typedef'' ''Pair'' (Some (NameExpression ''object'')),
            Tag ''property'' ''a'' (Some (Node ''NullableType'' [] [] [] None))])
     empty_object
   = throws (Die ''NullableType'')"
  by (simp add: Type_fromDoctrine_def RecordType_fromDoctrineType_def
      RecordType_fromDoctrineType_over_def and_then_def)

text \<open>
  Claim C6, amended: let the first deciding tag of a tag list be a typedef. If its type
  is the name expression \<open>object\<close> and the type of every \<open>property\<close> tag of the list
  translates to a type, the translation yields the Unknown type and assigns a record to
  the typedef's name in the registry, where a read of that name finds it; the property
  names of the record are the names of the \<open>property\<close> tags other than \<open>__proto__\<close>,
  and its property types are translations of the types of tags of those names. If the
  typedef's type is any other expression, the translation yields the Unknown type and
  assigns the invalid type to the typedef's name.
\<close>

theorem typedef_registers_record:
  assumes "\<forall>tag\<in>set pre. title tag \<notin> {''typedef'', ''type'', ''return'', ''returns'', ''param''}"
    and "tags = pre @ Tag ''typedef'' nm (Some d) # post"
  shows
   "(type d = ''NameExpression'' \<and> name d = ''object'' \<and>
     (\<forall>tag\<in>set tags. title tag = ''property'' \<longrightarrow>
        (\<exists>v. Type_fromDoctrineType n (tag_type tag) (Some tags) typedefs = returns v)) \<longrightarrow>
     (\<exists>rcd.
        Type_fromDoctrine n (Some tags) typedefs
          = returns (Type_any, assign nm (RecordType rcd) typedefs) \<and>
        read (assign nm (RecordType rcd) typedefs) nm = Some (Some (RecordType rcd)) \<and>
        set (Object_keys rcd) =
          {tag_name tag |tag. tag \<in> set tags \<and> title tag = ''property'' \<and>
             tag_name tag \<noteq> ''__proto__''} \<and>
        (\<forall>(k, v)\<in>set (own rcd). \<exists>tag\<in>set tags. title tag = ''property'' \<and> tag_name tag = k \<and>
           Type_fromDoctrineType n (tag_type tag) (Some tags) typedefs = returns v))) \<and>
    (\<not> (type d = ''NameExpression'' \<and> name d = ''object'') \<longrightarrow>
     Type_fromDoctrine n (Some tags) typedefs
       = returns (Type_any, assign nm Type_invalid typedefs) \<and>
     read (assign nm Type_invalid typedefs) nm = Some (Some Type_invalid))"
proof -
  have run: "Type_fromDoctrine n (Some tags) typedefs =
      and_then (RecordType_fromDoctrineType n (Some d) (Some tags) typedefs)
        (\<lambda>t. returns (Type_any, assign nm t typedefs))"
    using assms by (simp add: Type_fromDoctrine_def Type_fromDoctrine_tags_skip)
  have other: "Type_fromDoctrine n (Some tags) typedefs
       = returns (Type_any, assign nm Type_invalid typedefs)"
    if "\<not> (type d = ''NameExpression'' \<and> name d = ''object'')"
    using that run
    by (auto simp: RecordType_fromDoctrineType_def RecordType_fromDoctrineType_over_def and_then_def)
  have object: "\<exists>rcd.
        Type_fromDoctrine n (Some tags) typedefs
          = returns (Type_any, assign nm (RecordType rcd) typedefs) \<and>
        read (assign nm (RecordType rcd) typedefs) nm = Some (Some (RecordType rcd)) \<and>
        set (Object_keys rcd) =
          {tag_name tag |tag. tag \<in> set tags \<and> title tag = ''property'' \<and>
             tag_name tag \<noteq> ''__proto__''} \<and>
        (\<forall>(k, v)\<in>set (own rcd). \<exists>tag\<in>set tags. title tag = ''property'' \<and> tag_name tag = k \<and>
           Type_fromDoctrineType n (tag_type tag) (Some tags) typedefs = returns v)"
    if d: "type d = ''NameExpression''" "name d = ''object''"
      and ok: "\<forall>tag\<in>set tags. title tag = ''property'' \<longrightarrow>
        (\<exists>v. Type_fromDoctrineType n (tag_type tag) (Some tags) typedefs = returns v)"
  proof -
    have clean: "''__proto__'' \<notin> fst ` set (own (empty_object :: ty plain_object))"
      by (simp add: empty_object_def)
    have "\<exists>rcd. for_each
          (\<lambda>record tag.
             if title tag = ''property''
             then and_then (Type_fromDoctrineType n (tag_type tag) (Some tags) typedefs)
               (\<lambda>v. returns (assign (tag_name tag) v record))
             else returns record)
          empty_object tags = returns rcd \<and>
        fst ` set (own rcd) =
          {tag_name tag |tag. tag \<in> set tags \<and> title tag = ''property'' \<and>
             tag_name tag \<noteq> ''__proto__''} \<and>
        (\<forall>(k, v)\<in>set (own rcd). \<exists>tag\<in>set tags. title tag = ''property'' \<and> tag_name tag = k \<and>
              Type_fromDoctrineType n (tag_type tag) (Some tags) typedefs = returns v)"
      using property_loop [where f = "Type_fromDoctrineType n" and rec = "Some tags"
        and typedefs = typedefs and acc = empty_object and tags = tags, OF ok clean]
      by (simp add: empty_object_def)
    then obtain rcd where
      r: "for_each
          (\<lambda>record tag.
             if title tag = ''property''
             then and_then (Type_fromDoctrineType n (tag_type tag) (Some tags) typedefs)
               (\<lambda>v. returns (assign (tag_name tag) v record))
             else returns record)
          empty_object tags = returns rcd"
        "fst ` set (own rcd) =
          {tag_name tag |tag. tag \<in> set tags \<and> title tag = ''property'' \<and>
             tag_name tag \<noteq> ''__proto__''}"
        "\<forall>(k, v)\<in>set (own rcd). \<exists>tag\<in>set tags. title tag = ''property'' \<and> tag_name tag = k \<and>
              Type_fromDoctrineType n (tag_type tag) (Some tags) typedefs = returns v"
      by blast
    have "Type_fromDoctrine n (Some tags) typedefs
          = returns (Type_any, assign nm (RecordType rcd) typedefs)"
      using run d r(1)
      by (simp add: RecordType_fromDoctrineType_def RecordType_fromDoctrineType_over_def and_then_def)
    moreover have "set (Object_keys rcd) =
          {tag_name tag |tag. tag \<in> set tags \<and> title tag = ''property'' \<and>
             tag_name tag \<noteq> ''__proto__''}"
      using r(2) by (simp add: set_Object_keys)
    moreover note r(3) read_assign_same [of nm "RecordType rcd" typedefs]
    ultimately show ?thesis by blast
  qed
  show ?thesis using other object read_assign_same [of nm Type_invalid typedefs] by blast
qed

theorem typedef_registers_record_witness:
  "\<exists>rcd. Type_fromDoctrine 1 (Some Pair_tags) empty_object
        = returns (Type_any, assign ''Pair'' (RecordType rcd) empty_object) \<and>
      set (Object_keys rcd) = {''a''}"
proof -
  have pre: "\<forall>tag\<in>set []. title tag \<notin> {''typedef'', ''type'', ''return'', ''returns'', ''param''}"
    by simp
  have split: "Pair_tags = [] @ Tag ''typedef'' ''Pair'' (Some (NameExpression ''object''))
      # [Tag ''property'' ''a'' (Some (NameExpression ''number''))]"
    by (simp add: Pair_tags_def)
  have ok: "\<forall>tag\<in>set Pair_tags. title tag = ''property'' \<longrightarrow>
      (\<exists>v. Type_fromDoctrineType 1 (tag_type tag) (Some Pair_tags) empty_object = returns v)"
    by (simp add: Pair_tags_def PrimitiveType_fromDoctrineType_def)
  have names: "{tag_name tag |tag. tag \<in> set Pair_tags \<and> title tag = ''property'' \<and>
      tag_name tag \<noteq> ''__proto__''} = {''a''}"
  proof
    show "{tag_name tag |tag. tag \<in> set Pair_tags \<and> title tag = ''property'' \<and>
        tag_name tag \<noteq> ''__proto__''} \<subseteq> {''a''}"
      by (auto simp: Pair_tags_def)
    have "\<exists>tag. ''a'' = tag_name tag \<and> tag \<in> set Pair_tags \<and> title tag = ''property'' \<and>
        tag_name tag \<noteq> ''__proto__''"
      by (rule exI [of _ "Tag ''property'' ''a'' (Some (NameExpression ''number''))"])
        (simp add: Pair_tags_def)
    then show "{''a''} \<subseteq> {tag_name tag |tag. tag \<in> set Pair_tags \<and> title tag = ''property'' \<and>
        tag_name tag \<noteq> ''__proto__''}"
      by blast
  qed
  have "\<exists>rcd. Type_fromDoctrine 1 (Some Pair_tags) empty_object
        = returns (Type_any, assign ''Pair'' (RecordType rcd) empty_object) \<and>
      set (Object_keys rcd) = {tag_name tag |tag. tag \<in> set Pair_tags \<and> title tag = ''property'' \<and>
        tag_name tag \<noteq> ''__proto__''}"
    using ok typedef_registers_record [OF pre split, of 1 empty_object] by auto
  then show ?thesis unfolding names .
qed

text \<open>
  The example of the specification: \<open>Pair\<close> is registered as the record of \<open>a\<close>. A
  property named \<open>__proto__\<close> is translated and then becomes the prototype of the
  record's object, not a property.
\<close>

lemma typedef_Pair_example:
  "Type_fromDoctrine 1 (Some Pair_tags) empty_object
   = returns (Type_any,
       PlainObject [(''Pair'', RecordType (PlainObject [(''a'', Type_number)] None))] None)"
  by (simp add: Pair_tags_def Type_fromDoctrine_def RecordType_fromDoctrineType_def
      RecordType_fromDoctrineType_over_def and_then_def PrimitiveType_fromDoctrineType_def
      Type_number_def assign_def empty_object_def read_def inherited_def
      Object_prototype_names_def)

lemma property_named_proto_example:
  "Type_fromDoctrine 1
     (Some [Tag ''typedef'' ''Pair'' (Some (NameExpression ''object'')),
            Tag ''property'' ''__proto__'' (Some (NameExpression ''number''))])
     empty_object
   = returns (Type_any,
       PlainObject [(''Pair'', RecordType (PlainObject [] (Some Type_number)))] None)"
  by (simp add: Type_fromDoctrine_def RecordType_fromDoctrineType_def
      RecordType_fromDoctrineType_over_def and_then_def PrimitiveType_fromDoctrineType_def
      Type_number_def assign_def empty_object_def read_def inherited_def
      Object_prototype_names_def)

subsection \<open>Typedefs of another shape\<close>

text \<open>
  Claim C10 as stated: after a typedef of another shape than \<open>object\<close>, the name
  translates to an alias of the invalid type, which accepts nothing. With \<open>isOfType\<close>
  read as acceptance, it is false of the code at the Unknown type: the alias that the
  typedef \<open>Name\<close> of type \<open>string\<close> leaves behind answers \<open>true\<close> to
  \<open>isOfType(Type.any)\<close>.
\<close>

theorem alias_of_invalid_isOfType_any_counterexample:
  "Type_fromDoctrine 1 (Some [Tag ''typedef'' ''Name'' (Some (NameExpression ''string''))])
       empty_object
     = returns (Type_any, assign ''Name'' Type_invalid empty_object) \<and>
   Type_fromDoctrineType 1 (Some (NameExpression ''Name'')) None
       (assign ''Name'' Type_invalid empty_object)
     = returns (AliasType ''Name'' (Some Type_invalid)) \<and>
   isOfType 3 (AliasType ''Name'' (Some Type_invalid)) Type_any = returns True"
  by (simp add: Type_fromDoctrine_def RecordType_fromDoctrineType_def
      RecordType_fromDoctrineType_over_def and_then_def PrimitiveType_fromDoctrineType_def
      read_assign_same numeral_3_eq_3 Type_invalid_def Type_any_def)

text \<open>
  Claim C10, amended: when the first deciding tag is a typedef whose type is not the
  name expression \<open>object\<close>, the translation still writes the registry: the invalid
  type is assigned to the typedef's name, whatever the name held before, and a read of
  the name finds it. Against that registry the name expression of that name translates
  to the alias of the invalid type and not to a primitive of that name: always in
  \<open>PrimitiveType.fromDoctrineType\<close>, where the registry is looked up, and in the
  dispatcher for every name it sends there, that is every name but \<open>object\<close>. That
  alias is a supertype of nothing, its \<open>isSupertypeOf\<close> answers \<open>false\<close> to every
  argument; its \<open>isOfType\<close> does not reject everything, it answers \<open>true\<close> to the
  Unknown type.
\<close>

theorem typedef_of_other_shape_registers_invalid:
  assumes "\<forall>tag\<in>set pre. title tag \<notin> {''typedef'', ''type'', ''return'', ''returns'', ''param''}"
    and "\<not> (type d = ''NameExpression'' \<and> name d = ''object'')"
  shows
   "Type_fromDoctrine n (Some (pre @ Tag ''typedef'' nm (Some d) # post)) typedefs
      = returns (Type_any, assign nm Type_invalid typedefs) \<and>
    read (assign nm Type_invalid typedefs) nm = Some (Some Type_invalid) \<and>
    PrimitiveType_fromDoctrineType (NameExpression nm) rec (assign nm Type_invalid typedefs)
      = AliasType nm (Some Type_invalid) \<and>
    (nm \<noteq> ''object'' \<longrightarrow>
       Type_fromDoctrineType (Suc k) (Some (NameExpression nm)) rec
           (assign nm Type_invalid typedefs)
         = returns (AliasType nm (Some Type_invalid))) \<and>
    isSupertypeOf (Suc (Suc k)) (AliasType nm (Some Type_invalid)) x = returns False \<and>
    isOfType (Suc (Suc (Suc k))) (AliasType nm (Some Type_invalid)) Type_any = returns True \<and>
    AliasType nm (Some Type_invalid) \<noteq> new_PrimitiveType nm"
proof -
  have "Type_fromDoctrine n (Some (pre @ Tag ''typedef'' nm (Some d) # post)) typedefs
      = returns (Type_any, assign nm Type_invalid typedefs)"
    using assms
    by (auto simp: Type_fromDoctrine_def Type_fromDoctrine_tags_skip
        RecordType_fromDoctrineType_def RecordType_fromDoctrineType_over_def and_then_def)
  then show ?thesis
    by (simp add: PrimitiveType_fromDoctrineType_def read_assign_same Type_invalid_def
        Type_any_def new_PrimitiveType_def)
qed

theorem typedef_of_other_shape_registers_invalid_witness:
  "Type_fromDoctrine 1
       (Some [Tag ''description'' [] None, Tag ''typedef'' ''Name'' (Some (NameExpression ''string''))])
       (PlainObject [(''Name'', Type_object)] None)
     = returns (Type_any, PlainObject [(''Name'', Type_invalid)] None) \<and>
   Type_fromDoctrineType 1 (Some (NameExpression ''Name'')) None
       (PlainObject [(''Name'', Type_invalid)] None)
     = returns (AliasType ''Name'' (Some Type_invalid)) \<and>
   isSupertypeOf 2 (AliasType ''Name'' (Some Type_invalid)) Type_any = returns False \<and>
   isOfType 3 (AliasType ''Name'' (Some Type_invalid)) Type_any = returns True"
proof -
  have pre: "\<forall>tag\<in>set [Tag ''description'' [] None].
      title tag \<notin> {''typedef'', ''type'', ''return'', ''returns'', ''param''}"
    by simp
  have shape: "\<not> (type (NameExpression ''string'') = ''NameExpression'' \<and>
      name (NameExpression ''string'') = ''object'')"
    by simp
  have ne: "''Name'' \<noteq> ''object''" by simp
  have reg: "assign ''Name'' Type_invalid (PlainObject [(''Name'', Type_object)] None)
      = PlainObject [(''Name'', Type_invalid)] None"
    by (simp add: assign_def)
  show ?thesis
    using ne
      typedef_of_other_shape_registers_invalid
        [OF pre shape, of 1 "''Name''" "[]" "PlainObject [(''Name'', Type_object)] None"
          None 0 Type_any]
    by (simp add: numeral_2_eq_2 numeral_3_eq_3 reg)
qed

end
